theory Spec2Isabelle
  imports Complex_Main "HOL-Library.Monad_Syntax"
begin

section \<open>JavaScript values\<close>

text \<open>
  A JavaScript number is a binary64 value: NaN, the two infinities, or a finite value.
  Finite values are kept as reals; the comparisons \<open><\<close> and \<open>>\<close> of two doubles are
  the comparisons of the reals they denote, and every comparison with NaN is false.
\<close>

datatype jsnum = NaN | NegInf | Fin real | PosInf

fun js_lt :: "jsnum \<Rightarrow> jsnum \<Rightarrow> bool" where
  "js_lt NaN y = False"
| "js_lt x NaN = False"
| "js_lt PosInf y = False"
| "js_lt x NegInf = False"
| "js_lt NegInf y = True"
| "js_lt (Fin a) PosInf = True"
| "js_lt (Fin a) (Fin b) = (a < b)"

definition js_gt :: "jsnum \<Rightarrow> jsnum \<Rightarrow> bool" where
  "js_gt x y = js_lt y x"

text \<open>\<open>x >= y\<close> in JavaScript: false when either side is NaN, otherwise not \<open>x < y\<close>.\<close>

definition js_ge :: "jsnum \<Rightarrow> jsnum \<Rightarrow> bool" where
  "js_ge x y = (x \<noteq> NaN \<and> y \<noteq> NaN \<and> \<not> js_lt x y)"

text \<open>
  The product of two numbers. The handlers only ever multiply by the constant
  \<open>eventDuration = 1\<close>, where the binary64 product is exact; rounding of other finite
  products is not modelled.
\<close>

fun js_mul :: "jsnum \<Rightarrow> jsnum \<Rightarrow> jsnum" where
  "js_mul NaN y = NaN"
| "js_mul x NaN = NaN"
| "js_mul (Fin a) (Fin b) = Fin (a * b)"
| "js_mul (Fin a) PosInf = (if a = 0 then NaN else if 0 < a then PosInf else NegInf)"
| "js_mul (Fin a) NegInf = (if a = 0 then NaN else if 0 < a then NegInf else PosInf)"
| "js_mul PosInf (Fin b) = (if b = 0 then NaN else if 0 < b then PosInf else NegInf)"
| "js_mul NegInf (Fin b) = (if b = 0 then NaN else if 0 < b then NegInf else PosInf)"
| "js_mul PosInf PosInf = PosInf"
| "js_mul PosInf NegInf = NegInf"
| "js_mul NegInf PosInf = NegInf"
| "js_mul NegInf NegInf = PosInf"

text \<open>
  The values a request body carries: the JSON primitives (a multipart form carries
  strings only); arrays and nested objects are not modelled. A body is an object, a
  map from property names to values; reading an absent property gives \<open>undefined\<close>.
\<close>

datatype jsval = JUndefined | JNull | JBool bool | JNum jsnum | JStr string

type_synonym obj = "string \<rightharpoonup> jsval"

definition getProp :: "obj \<Rightarrow> string \<Rightarrow> jsval" where
  "getProp ob k = (case ob k of None \<Rightarrow> JUndefined | Some v \<Rightarrow> v)"

text \<open>Truthiness, as tested by \<open>!x\<close> and \<open>if (x)\<close>.\<close>

fun truthy :: "jsval \<Rightarrow> bool" where
  "truthy JUndefined = False"
| "truthy JNull = False"
| "truthy (JBool b) = b"
| "truthy (JNum n) = (n \<noteq> NaN \<and> n \<noteq> Fin 0)"
| "truthy (JStr s) = (s \<noteq> [])"

text \<open>A value of a document path that may be unset (\<open>undefined\<close>) or \<open>null\<close>.\<close>

datatype 'a nullable = Undefined | Null | Val 'a

text \<open>\<open>Array.prototype.join\<close> on an array of strings.\<close>

fun join :: "string \<Rightarrow> string list \<Rightarrow> string" where
  "join sep [] = []"
| "join sep [x] = x"
| "join sep (x # y # ys) = x @ sep @ join sep (y # ys)"

text \<open>
  A template literal is kept as its pieces: the literal text and the numbers
  interpolated into it, in order.
\<close>

datatype piece = Lit string | NumV jsnum

section \<open>Documents and collections\<close>

type_synonym oid = string
type_synonym date = nat

text \<open>
  The schemas of \<open>models/User\<close>, \<open>models/Venue\<close> and \<open>models/Event\<close>. Field names are
  the schema's; a prefix is added where two schemas share a name. String paths that
  are not required may be unset (\<open>None\<close>). The user's \<open>venueDetails\<close> and
  \<open>organizationDetails\<close> and the timestamps are never read by the handlers below
  and are left out.
\<close>

record review =
  r_user :: oid
  r_rating :: "jsnum nullable"
  r_comment :: "string option"
  r_date :: date

record user_doc =
  u_id :: oid
  u_name :: "string option"
  email :: "string option"
  password :: "string option"
  role :: string
  venues :: "oid list"

record venue_doc =
  v_id :: oid
  owner :: oid
  v_name :: string
  address :: string
  capacity :: jsnum
  pricePerDay :: jsnum
  amenities :: "string list"
  v_images :: "string list"
  v_description :: "string option"
  availability :: bool
  rating :: jsnum
  v_reviews :: "review list"

record venue_request =
  vr_status :: "string option"
  message :: "string option"
  response :: "string option"
  requestedAt :: date
  respondedAt :: "date option"

record event_doc =
  e_id :: oid
  organizer :: oid
  venue :: oid
  title :: string
  description :: string
  eventDate :: date
  eventTime :: string
  expectedAttendees :: jsnum
  status :: "string option"
  price :: jsnum
  requirements :: "string list"
  images :: "string list"
  category :: string
  attendees :: "oid list"
  e_reviews :: "review list"
  venueRequest :: venue_request
  budget :: jsnum

text \<open>
  The paths of a new event that the creation handler never sets itself, as mongoose
  derives them from the request body.
\<close>

record other_paths =
  op_requirements :: "string list"
  op_attendees :: "oid list"
  op_reviews :: "review list"
  op_venueRequest :: venue_request

text \<open>
  The database: one list of documents per collection, in insertion order.
  \<open>findById\<close> and \<open>findOne\<close> return the first match.
\<close>

record db =
  users :: "user_doc list"
  venue_coll :: "venue_doc list"
  events :: "event_doc list"

section \<open>The runtime and the libraries\<close>

text \<open>
  The claims of a token's payload that the handlers and \<open>jwt.verify\<close> read:
  \<open>userId\<close> and \<open>role\<close>, the issue time, and the registered claims \<open>nbf\<close> and
  \<open>exp\<close>, which any JSON value may fill in a token the server did not issue.
\<close>

record jwt_payload =
  userId :: jsval
  p_role :: string
  iat :: nat
  nbf_claim :: jsval
  exp_claim :: jsval

text \<open>
  What decoding a token string gives: nothing, when it is not three dot-separated
  parts with a JSON header; a \<open>SyntaxError\<close>, when the header says \<open>typ: "JWT"\<close> and
  the payload is not JSON, which the package parses unguarded; or the payload.
\<close>

datatype jwt_decoded = NotAToken | PayloadNotJson | Decoded jwt_payload

text \<open>
  What the handlers take from the JavaScript runtime and from the packages they
  call (mongoose, jsonwebtoken, bcryptjs), whose code is not part of the repository:
  \<^item> \<open>strToNumber\<close>: \<open>Number(s)\<close> on a string;
  \<^item> \<open>numToString\<close>: \<open>String(n)\<close> on a number;
  \<^item> \<open>castObjectId\<close>: mongoose's cast of a value other than \<open>null\<close> and
    \<open>undefined\<close> to an ObjectId, \<open>None\<close> when the cast fails;
  \<^item> \<open>castDate\<close>: the same for dates;
  \<^item> \<open>fadd\<close>, \<open>fdiv\<close>: the binary64 sum and quotient, which round;
  \<^item> \<open>castOtherPaths\<close>: what mongoose makes of the body of an event creation for
    the paths \<open>requirements\<close>, \<open>attendees\<close>, \<open>reviews\<close> and \<open>venueRequest\<close> (the
    schema's defaults when the body names none of them), \<open>None\<close> when it refuses a
    property of the body that the handler does not touch;
  \<^item> \<open>jwt_sign\<close>: the compact serialisation of a payload signed with a secret;
    \<open>jwt_decode\<close>: the decoding of a token string;
    \<open>jws_verify\<close>: whether the token's algorithm is accepted and its signature
    verifies under a secret;
  \<^item> \<open>bcrypt_hash\<close>, \<open>bcrypt_compare\<close>.
  Every theorem below holds for all such functions.
\<close>

record jslib =
  strToNumber :: "string \<Rightarrow> jsnum"
  numToString :: "jsnum \<Rightarrow> string"
  castObjectId :: "jsval \<Rightarrow> oid option"
  castDate :: "jsval \<Rightarrow> date option"
  castOtherPaths :: "obj \<Rightarrow> date \<Rightarrow> other_paths option"
  fadd :: "jsnum \<Rightarrow> jsnum \<Rightarrow> jsnum"
  fdiv :: "jsnum \<Rightarrow> jsnum \<Rightarrow> jsnum"
  jwt_sign :: "jwt_payload \<Rightarrow> string \<Rightarrow> string"
  jwt_decode :: "string \<Rightarrow> jwt_decoded"
  jws_verify :: "string \<Rightarrow> string \<Rightarrow> bool"
  bcrypt_hash :: "string \<Rightarrow> string"
  bcrypt_compare :: "string \<Rightarrow> string \<Rightarrow> bool"

text \<open>\<open>Number(v)\<close>.\<close>

fun js_Number :: "jslib \<Rightarrow> jsval \<Rightarrow> jsnum" where
  "js_Number L JUndefined = NaN"
| "js_Number L JNull = Fin 0"
| "js_Number L (JBool b) = (if b then Fin 1 else Fin 0)"
| "js_Number L (JNum n) = n"
| "js_Number L (JStr s) = strToNumber L s"

text \<open>The value a \<open>null\<close>, \<open>undefined\<close> or numeric operand of \<open>+\<close> contributes.\<close>

fun toNum :: "jsnum nullable \<Rightarrow> jsnum" where
  "toNum Undefined = NaN"
| "toNum Null = Fin 0"
| "toNum (Val n) = n"

text \<open>Errors thrown inside a handler's \<open>try\<close> block.\<close>

datatype js_error =
    CastError
  | ValidationError
  | TypeError
  | IllegalArguments
  | DuplicateKey
  | SyntaxError
  | JsonWebTokenError
  | NotBeforeError
  | TokenExpiredError
  | JsError "piece list"

section \<open>Queries\<close>

text \<open>
  \<open>Model.findById(v)\<close>: \<open>null\<close> and \<open>undefined\<close> find nothing; any other value is cast
  to an ObjectId, and the query throws when the cast fails.
\<close>

definition findById :: "jslib \<Rightarrow> ('d \<Rightarrow> oid) \<Rightarrow> 'd list \<Rightarrow> jsval \<Rightarrow> js_error + 'd option" where
  "findById L idOf coll v =
     (case v of
        JUndefined \<Rightarrow> Inr None
      | JNull \<Rightarrow> Inr None
      | _ \<Rightarrow> (case castObjectId L v of
                None \<Rightarrow> Inl CastError
              | Some i \<Rightarrow> Inr (find (\<lambda>d. idOf d = i) coll)))"

text \<open>The same query on a value that is an ObjectId already.\<close>

definition findByOid :: "('d \<Rightarrow> oid) \<Rightarrow> 'd list \<Rightarrow> oid \<Rightarrow> 'd option" where
  "findByOid idOf coll i = find (\<lambda>d. idOf d = i) coll"

text \<open>Writing a loaded document back: the first document with its identifier is replaced.\<close>

fun replaceById :: "('d \<Rightarrow> oid) \<Rightarrow> 'd \<Rightarrow> 'd list \<Rightarrow> 'd list" where
  "replaceById idOf d [] = []"
| "replaceById idOf d (x # xs) =
     (if idOf x = idOf d then d # xs else x # replaceById idOf d xs)"

section \<open>Mongoose casts and schema validation\<close>

datatype 'a cast = CastFailed | Cast 'a

text \<open>
  The String cast keeps \<open>null\<close> and \<open>undefined\<close> as no value and takes \<open>toString()\<close>
  of every other primitive.
\<close>

fun mg_castString :: "jslib \<Rightarrow> jsval \<Rightarrow> string option" where
  "mg_castString L JUndefined = None"
| "mg_castString L JNull = None"
| "mg_castString L (JBool b) = Some (if b then ''true'' else ''false'')"
| "mg_castString L (JNum n) = Some (numToString L n)"
| "mg_castString L (JStr s) = Some s"

text \<open>
  The Number cast: \<open>null\<close>, \<open>undefined\<close> and the empty string give no value, strings
  and booleans go through \<open>Number\<close>, and NaN is refused.
\<close>

fun mg_castNumber :: "jslib \<Rightarrow> jsval \<Rightarrow> jsnum nullable cast" where
  "mg_castNumber L JUndefined = Cast Undefined"
| "mg_castNumber L JNull = Cast Null"
| "mg_castNumber L (JBool b) = Cast (Val (if b then Fin 1 else Fin 0))"
| "mg_castNumber L (JNum n) = (if n = NaN then CastFailed else Cast (Val n))"
| "mg_castNumber L (JStr s) =
     (if s = [] then Cast Null
      else if strToNumber L s = NaN then CastFailed
      else Cast (Val (strToNumber L s)))"

text \<open>A required path: the cast must succeed and leave a value (a non-empty string).\<close>

definition requiredString :: "jslib \<Rightarrow> jsval \<Rightarrow> string option" where
  "requiredString L v =
     (case mg_castString L v of
        None \<Rightarrow> None
      | Some s \<Rightarrow> if s = [] then None else Some s)"

definition requiredNumber :: "jslib \<Rightarrow> jsval \<Rightarrow> jsnum option" where
  "requiredNumber L v =
     (case mg_castNumber L v of
        Cast (Val n) \<Rightarrow> Some n
      | _ \<Rightarrow> None)"

definition requiredObjectId :: "jslib \<Rightarrow> jsval \<Rightarrow> oid option" where
  "requiredObjectId L v =
     (case v of
        JUndefined \<Rightarrow> None
      | JNull \<Rightarrow> None
      | _ \<Rightarrow> castObjectId L v)"

definition requiredDate :: "jslib \<Rightarrow> jsval \<Rightarrow> date option" where
  "requiredDate L v =
     (case v of
        JUndefined \<Rightarrow> None
      | JNull \<Rightarrow> None
      | _ \<Rightarrow> castDate L v)"

definition statusEnum :: "string list" where
  "statusEnum = [''pending'', ''approved'', ''rejected'', ''completed'', ''cancelled'']"

definition categoryEnum :: "string list" where
  "categoryEnum = [''Conference'', ''Workshop'', ''Seminar'', ''Party'', ''Wedding'', ''Other'']"

definition venueRequestEnum :: "string list" where
  "venueRequestEnum = [''pending'', ''approved'', ''rejected'']"

text \<open>An enum validator passes a path that has no value.\<close>

definition enumOk :: "string list \<Rightarrow> string option \<Rightarrow> bool" where
  "enumOk allowed v = (case v of None \<Rightarrow> True | Some s \<Rightarrow> List.member allowed s)"

text \<open>
  The validators of the event schema on a document whose paths have been cast:
  required strings are non-empty, \<open>expectedAttendees\<close> has \<open>min: 1\<close>, \<open>price\<close> has
  \<open>min: 0\<close>, the required \<open>budget\<close> is a number, and the three enums hold.
\<close>

definition eventValid :: "event_doc \<Rightarrow> bool" where
  "eventValid e =
     (title e \<noteq> [] \<and> description e \<noteq> [] \<and> eventTime e \<noteq> [] \<and> category e \<noteq> [] \<and>
      js_ge (expectedAttendees e) (Fin 1) \<and>
      js_ge (price e) (Fin 0) \<and>
      budget e \<noteq> NaN \<and>
      enumOk statusEnum (status e) \<and>
      List.member categoryEnum (category e) \<and>
      enumOk venueRequestEnum (vr_status (venueRequest e)))"

section \<open>The pre-save hook of the event schema\<close>

definition eventDuration :: jsnum where
  "eventDuration = Fin 1"

definition venueCost :: "venue_doc \<Rightarrow> jsnum" where
  "venueCost v = js_mul (pricePerDay v) eventDuration"

definition capacityMessage :: "jsnum \<Rightarrow> jsnum \<Rightarrow> piece list" where
  "capacityMessage expected cap =
     [Lit ''Expected attendees ('', NumV expected,
      Lit '') exceed venue capacity ('', NumV cap, Lit '')'']"

definition budgetMessage :: "jsnum \<Rightarrow> jsnum \<Rightarrow> piece list" where
  "budgetMessage b cost =
     [Lit ''Budget ('', NumV b,
      Lit '') is insufficient for venue cost ('', NumV cost, Lit '')'']"

text \<open>
  \<open>eventSchema.pre("save")\<close>: the error passed to \<open>next\<close>, or \<open>None\<close> when the hook
  calls \<open>next()\<close> without one.
\<close>

definition preSave :: "db \<Rightarrow> event_doc \<Rightarrow> js_error option" where
  "preSave s this =
     (case findByOid v_id (venue_coll s) (venue this) of
        None \<Rightarrow> Some (JsError [Lit ''Venue not found''])
      | Some v \<Rightarrow>
          if \<not> availability v then Some (JsError [Lit ''Venue is not available''])
          else if js_gt (expectedAttendees this) (capacity v)
            then Some (JsError (capacityMessage (expectedAttendees this) (capacity v)))
          else if js_lt (budget this) (venueCost v)
            then Some (JsError (budgetMessage (budget this) (venueCost v)))
          else None)"

text \<open>
  \<open>event.save()\<close>: the schema validation, then the pre-save hook, then the write.
  For a new document the write appends, and the database refuses an identifier that
  a stored event has already; for a loaded document the write replaces.
\<close>

definition event_insert :: "db \<Rightarrow> event_doc \<Rightarrow> js_error + db" where
  "event_insert s e =
     (if \<not> eventValid e then Inl ValidationError
      else case preSave s e of
             Some err \<Rightarrow> Inl err
           | None \<Rightarrow>
               if e_id e \<in> set (map e_id (events s)) then Inl DuplicateKey
               else Inr (s\<lparr>events := events s @ [e]\<rparr>))"

definition event_save :: "db \<Rightarrow> event_doc \<Rightarrow> js_error + db" where
  "event_save s e =
     (if \<not> eventValid e then Inl ValidationError
      else case preSave s e of
             Some err \<Rightarrow> Inl err
           | None \<Rightarrow> Inr (s\<lparr>events := replaceById e_id e (events s)\<rparr>))"

section \<open>Event creation\<close>

text \<open>
  The object \<open>eventData\<close> of the \<open>POST /events\<close> handler: the copied body, with
  \<open>images\<close> (the uploaded files' paths) and \<open>organizer\<close> (an ObjectId) set by the
  handler over whatever the body held under these names.
\<close>

record event_data =
  ed_fields :: obj
  ed_images :: "string list"
  ed_organizer :: oid

definition setNumber :: "jslib \<Rightarrow> string \<Rightarrow> obj \<Rightarrow> obj" where
  "setNumber L k ob = ob(k \<mapsto> JNum (js_Number L (getProp ob k)))"

definition renameIfTruthy :: "string \<Rightarrow> string \<Rightarrow> obj \<Rightarrow> obj" where
  "renameIfTruthy src dst ob =
     (if truthy (getProp ob src) then (ob(dst \<mapsto> getProp ob src))(src := None) else ob)"

definition buildEventData :: "jslib \<Rightarrow> user_doc \<Rightarrow> string list \<Rightarrow> obj \<Rightarrow> event_data" where
  "buildEventData L reqUser files body =
     \<lparr>ed_fields =
        renameIfTruthy ''time'' ''eventTime''
          (renameIfTruthy ''date'' ''eventDate''
            (setNumber L ''price''
              (setNumber L ''budget''
                (setNumber L ''expectedAttendees''
                  (body(''images'' := None, ''organizer'' := None)))))),
      ed_images = files,
      ed_organizer = u_id reqUser\<rparr>"

definition requiredFields :: "string list" where
  "requiredFields =
     [''title'', ''description'', ''venue'', ''eventDate'', ''eventTime'',
      ''expectedAttendees'', ''budget'', ''category'', ''price'']"

definition missingFields :: "event_data \<Rightarrow> string list" where
  "missingFields ed = filter (\<lambda>field. \<not> truthy (getProp (ed_fields ed) field)) requiredFields"

text \<open>
  The document \<open>EventModel.create(eventData)\<close> builds before it saves it: each path
  cast from the property of the same name, with the schema's defaults. The
  identifier is the body's \<open>_id\<close> when it has one, and the generated one otherwise.
  \<open>None\<close> when a cast fails or a required path is left without a value, which the
  save reports as an error.
\<close>

definition newEventDoc :: "jslib \<Rightarrow> oid \<Rightarrow> date \<Rightarrow> event_data \<Rightarrow> event_doc option" where
  "newEventDoc L newId now ed =
     do {
       i \<leftarrow> (case ed_fields ed ''_id'' of
              None \<Rightarrow> Some newId
            | Some JUndefined \<Rightarrow> Some newId
            | Some JNull \<Rightarrow> None
            | Some x \<Rightarrow> castObjectId L x);
       t \<leftarrow> requiredString L (getProp (ed_fields ed) ''title'');
       d \<leftarrow> requiredString L (getProp (ed_fields ed) ''description'');
       v \<leftarrow> requiredObjectId L (getProp (ed_fields ed) ''venue'');
       dt \<leftarrow> requiredDate L (getProp (ed_fields ed) ''eventDate'');
       tm \<leftarrow> requiredString L (getProp (ed_fields ed) ''eventTime'');
       n \<leftarrow> requiredNumber L (getProp (ed_fields ed) ''expectedAttendees'');
       p \<leftarrow> requiredNumber L (getProp (ed_fields ed) ''price'');
       c \<leftarrow> requiredString L (getProp (ed_fields ed) ''category'');
       b \<leftarrow> requiredNumber L (getProp (ed_fields ed) ''budget'');
       other \<leftarrow> castOtherPaths L (ed_fields ed) now;
       Some \<lparr>e_id = i, organizer = ed_organizer ed, venue = v, title = t,
             description = d, eventDate = dt, eventTime = tm, expectedAttendees = n,
             status = (case ed_fields ed ''status'' of
                         None \<Rightarrow> Some ''pending''
                       | Some JUndefined \<Rightarrow> Some ''pending''
                       | Some x \<Rightarrow> mg_castString L x),
             price = p, requirements = op_requirements other, images = ed_images ed,
             category = c, attendees = op_attendees other, e_reviews = op_reviews other,
             venueRequest = op_venueRequest other, budget = b\<rparr>
     }"

definition EventModel_create :: "jslib \<Rightarrow> db \<Rightarrow> oid \<Rightarrow> date \<Rightarrow> event_data \<Rightarrow> js_error + (event_doc \<times> db)" where
  "EventModel_create L s newId now ed =
     (case newEventDoc L newId now ed of
        None \<Rightarrow> Inl ValidationError
      | Some e \<Rightarrow> (case event_insert s e of
                    Inl err \<Rightarrow> Inl err
                  | Inr s' \<Rightarrow> Inr (e, s')))"

text \<open>Response bodies: \<open>{error}\<close>, \<open>{error, details}\<close> with a template literal,
  \<open>{error, details: error.message}\<close> with a caught error, and the success bodies.\<close>

datatype body =
    ErrorBody string
  | ErrorDetails string "piece list"
  | ErrorThrown string js_error
  | EventBody event_doc
  | VenueBody venue_doc
  | SuccessEvent event_doc
  | TokenBody string user_doc

type_synonym http_response = "nat \<times> body"


text \<open>
  The venue checks of the \<open>POST /events\<close> handler, between the required-field
  check and the creation: the response sent by the first check that fails, or
  \<open>None\<close> when all pass. A failed cast of the venue identifier makes the query
  throw, which the handler's \<open>catch\<close> answers.
\<close>

definition routeBookingChecks :: "jslib \<Rightarrow> db \<Rightarrow> event_data \<Rightarrow> http_response option" where
  "routeBookingChecks L s eventData =
     (case findById L v_id (venue_coll s) (getProp (ed_fields eventData) ''venue'') of
        Inl err \<Rightarrow> Some (500, ErrorThrown ''Failed to create event'' err)
      | Inr None \<Rightarrow> Some (404, ErrorBody ''Venue not found'')
      | Inr (Some v) \<Rightarrow>
          if \<not> availability v then
            Some (400, ErrorDetails ''Venue not available''
                         [Lit ''This venue is currently unavailable''])
          else if js_gt (js_Number L (getProp (ed_fields eventData) ''expectedAttendees''))
                        (capacity v) then
            Some (400, ErrorDetails ''Capacity exceeded''
                         (capacityMessage
                            (js_Number L (getProp (ed_fields eventData) ''expectedAttendees''))
                            (capacity v)))
          else if js_lt (js_Number L (getProp (ed_fields eventData) ''budget''))
                        (venueCost v) then
            Some (400, ErrorDetails ''Insufficient budget''
                         (budgetMessage
                            (js_Number L (getProp (ed_fields eventData) ''budget''))
                            (venueCost v)))
          else None)"

text \<open>
  The handler of \<open>POST /events\<close>, after \<open>auth\<close>, \<open>checkRole(["organizer"])\<close> and the
  upload middleware: \<open>reqUser\<close> is \<open>req.user\<close>, \<open>files\<close> the paths of \<open>req.files\<close>,
  \<open>newId\<close> the identifier generated for the new document. It returns the response
  and the database it leaves.
\<close>

definition post_events :: "jslib \<Rightarrow> db \<Rightarrow> user_doc \<Rightarrow> string list \<Rightarrow> oid \<Rightarrow> date \<Rightarrow> obj \<Rightarrow> http_response \<times> db" where
  "post_events L s reqUser files newId now reqBody =
     (let eventData = buildEventData L reqUser files reqBody in
      if length (missingFields eventData) > 0 then
        ((400, ErrorDetails ''Missing required fields''
                 [Lit (''Please fill in the following fields: '' @
                       join '', '' (missingFields eventData))]), s)
      else
        case routeBookingChecks L s eventData of
          Some r \<Rightarrow> (r, s)
        | None \<Rightarrow>
            (case EventModel_create L s newId now eventData of
               Inl err \<Rightarrow> ((500, ErrorThrown ''Failed to create event'' err), s)
             | Inr (event, s') \<Rightarrow> ((201, EventBody event), s')))"

section \<open>Status updates, reviews and venue requests\<close>

text \<open>
  The handler of \<open>PUT /events/:id/status\<close>, after \<open>auth\<close> and
  \<open>checkRole(["venue_owner"])\<close>. Reading \<open>event.venue\<close> of no event, or \<open>venue.owner\<close>
  of no venue, throws; every throw gets the same response.
\<close>

definition put_event_status :: "jslib \<Rightarrow> db \<Rightarrow> user_doc \<Rightarrow> string \<Rightarrow> obj \<Rightarrow> http_response \<times> db" where
  "put_event_status L s reqUser idParam reqBody =
     (case findById L e_id (events s) (JStr idParam) of
        Inl err \<Rightarrow> ((500, ErrorBody ''Failed to update event status''), s)
      | Inr None \<Rightarrow> ((500, ErrorBody ''Failed to update event status''), s)
      | Inr (Some event) \<Rightarrow>
          (case findByOid v_id (venue_coll s) (venue event) of
             None \<Rightarrow> ((500, ErrorBody ''Failed to update event status''), s)
           | Some v \<Rightarrow>
               if owner v \<noteq> u_id reqUser then ((403, ErrorBody ''Not authorized''), s)
               else
                 (case event_save s (event\<lparr>status := mg_castString L (getProp reqBody ''status'')\<rparr>) of
                    Inl err \<Rightarrow> ((500, ErrorBody ''Failed to update event status''), s)
                  | Inr s' \<Rightarrow>
                      ((200, EventBody (event\<lparr>status := mg_castString L (getProp reqBody ''status'')\<rparr>)),
                       s'))))"

text \<open>
  The subdocument pushed by both review handlers. A rating that cannot be cast to
  a number makes the later save fail.
\<close>

definition newReview :: "jslib \<Rightarrow> user_doc \<Rightarrow> date \<Rightarrow> obj \<Rightarrow> review cast" where
  "newReview L reqUser now reqBody =
     (case mg_castNumber L (getProp reqBody ''rating'') of
        CastFailed \<Rightarrow> CastFailed
      | Cast r \<Rightarrow>
          Cast \<lparr>r_user = u_id reqUser, r_rating = r,
                r_comment = mg_castString L (getProp reqBody ''comment''), r_date = now\<rparr>)"

text \<open>The handler of \<open>POST /events/:id/reviews\<close>, after \<open>auth\<close>.\<close>

definition post_event_review :: "jslib \<Rightarrow> db \<Rightarrow> user_doc \<Rightarrow> string \<Rightarrow> date \<Rightarrow> obj \<Rightarrow> http_response \<times> db" where
  "post_event_review L s reqUser idParam now reqBody =
     (case findById L e_id (events s) (JStr idParam) of
        Inl err \<Rightarrow> ((500, ErrorBody ''Failed to add review''), s)
      | Inr None \<Rightarrow> ((500, ErrorBody ''Failed to add review''), s)
      | Inr (Some event) \<Rightarrow>
          (case newReview L reqUser now reqBody of
             CastFailed \<Rightarrow> ((500, ErrorBody ''Failed to add review''), s)
           | Cast r \<Rightarrow>
               (case event_save s (event\<lparr>e_reviews := e_reviews event @ [r]\<rparr>) of
                  Inl err \<Rightarrow> ((500, ErrorBody ''Failed to add review''), s)
                | Inr s' \<Rightarrow>
                    ((200, EventBody (event\<lparr>e_reviews := e_reviews event @ [r]\<rparr>)), s'))))"

text \<open>
  \<open>venue.save()\<close>: the venue schema has no hook; its required strings must be
  non-empty and its \<open>rating\<close> must be a number, NaN being refused by the cast.
\<close>

definition venue_save :: "db \<Rightarrow> venue_doc \<Rightarrow> js_error + db" where
  "venue_save s v =
     (if v_name v = [] \<or> address v = [] \<or> rating v = NaN then Inl ValidationError
      else Inr (s\<lparr>venue_coll := replaceById v_id v (venue_coll s)\<rparr>))"

text \<open>
  \<open>venue.reviews.reduce((sum, review) => sum + review.rating, 0)\<close>: a left fold
  from 0 in list order.
\<close>

definition totalRating :: "jslib \<Rightarrow> review list \<Rightarrow> jsnum" where
  "totalRating L rs = foldl (\<lambda>sum review. fadd L sum (toNum (r_rating review))) (Fin 0) rs"

text \<open>The handler of \<open>POST /venues/:id/reviews\<close>, after \<open>auth\<close>.\<close>

definition post_venue_review :: "jslib \<Rightarrow> db \<Rightarrow> user_doc \<Rightarrow> string \<Rightarrow> date \<Rightarrow> obj \<Rightarrow> http_response \<times> db" where
  "post_venue_review L s reqUser idParam now reqBody =
     (case findById L v_id (venue_coll s) (JStr idParam) of
        Inl err \<Rightarrow> ((500, ErrorBody ''Failed to add review''), s)
      | Inr None \<Rightarrow> ((500, ErrorBody ''Failed to add review''), s)
      | Inr (Some v) \<Rightarrow>
          (case newReview L reqUser now reqBody of
             CastFailed \<Rightarrow> ((500, ErrorBody ''Failed to add review''), s)
           | Cast r \<Rightarrow>
               (let reviews' = v_reviews v @ [r];
                    v' = v\<lparr>v_reviews := reviews',
                           rating := fdiv L (totalRating L reviews') (Fin (real (length reviews')))\<rparr>
                in case venue_save s v' of
                     Inl err \<Rightarrow> ((500, ErrorBody ''Failed to add review''), s)
                   | Inr s' \<Rightarrow> ((200, VenueBody v'), s'))))"

text \<open>
  The handler of \<open>PATCH /vevent/:id/venue-request\<close>, after \<open>auth\<close>. The test
  \<open>req.user.venues.includes(event.venue)\<close> is membership in the list of identifiers.
\<close>

definition decideVenueRequest :: "jslib \<Rightarrow> date \<Rightarrow> obj \<Rightarrow> event_doc \<Rightarrow> event_doc" where
  "decideVenueRequest L now reqBody event =
     event\<lparr>venueRequest :=
             (venueRequest event)\<lparr>vr_status := mg_castString L (getProp reqBody ''action''),
                                  response := mg_castString L (getProp reqBody ''response''),
                                  respondedAt := Some now\<rparr>,
           status := Some (if getProp reqBody ''action'' = JStr ''approved''
                           then ''approved'' else ''rejected'')\<rparr>"

definition patch_venue_request :: "jslib \<Rightarrow> db \<Rightarrow> user_doc \<Rightarrow> string \<Rightarrow> date \<Rightarrow> obj \<Rightarrow> http_response \<times> db" where
  "patch_venue_request L s reqUser idParam now reqBody =
     (case findById L e_id (events s) (JStr idParam) of
        Inl err \<Rightarrow> ((500, ErrorBody ''Failed to process venue request''), s)
      | Inr None \<Rightarrow> ((404, ErrorBody ''Event not found''), s)
      | Inr (Some event) \<Rightarrow>
          if role reqUser \<noteq> ''venue_owner'' \<or> venue event \<notin> set (venues reqUser) then
            ((403, ErrorBody ''Unauthorized''), s)
          else
            (case event_save s (decideVenueRequest L now reqBody event) of
               Inl err \<Rightarrow> ((500, ErrorBody ''Failed to process venue request''), s)
             | Inr s' \<Rightarrow> ((200, SuccessEvent (decideVenueRequest L now reqBody event)), s')))"

section \<open>Authentication\<close>








datatype 'a middleware = Respond http_response | Next 'a



definition checkRole :: "string list \<Rightarrow> user_doc \<Rightarrow> user_doc middleware" where
  "checkRole roles reqUser =
     (if role reqUser \<notin> set roles then Respond (403, ErrorBody ''Access denied'')
      else Next reqUser)"

section \<open>Registration and login\<close>







section \<open>What a payload supplies\<close>

text \<open>
  The nine fields an event-creation payload must supply, and the property names
  under which a body can supply each: the event date and time may come as \<open>date\<close>
  and \<open>time\<close>. A field is missing when the body has none of its names.
\<close>

definition fieldSources :: "string \<Rightarrow> string list" where
  "fieldSources field =
     (if field = ''eventDate'' then [''date'', ''eventDate'']
      else if field = ''eventTime'' then [''time'', ''eventTime'']
      else [field])"

definition isMissing :: "obj \<Rightarrow> string \<Rightarrow> bool" where
  "isMissing reqBody field = list_all (\<lambda>k. reqBody k = None) (fieldSources field)"

definition nineFields :: "string list" where
  "nineFields =
     [''title'', ''description'', ''venue'', ''eventDate'', ''eventTime'',
      ''expectedAttendees'', ''budget'', ''category'', ''price'']"

definition missingFromBody :: "obj \<Rightarrow> string list" where
  "missingFromBody reqBody = filter (isMissing reqBody) nineFields"

text \<open>
  Every required field that the body supplies has a truthy value once coerced: a
  non-empty string for the text fields, a number other than 0 and NaN under
  \<open>Number\<close> for the numeric ones.
\<close>

definition numericFields :: "string list" where
  "numericFields = [''expectedAttendees'', ''budget'', ''price'']"

definition suppliedTruthy :: "jslib \<Rightarrow> obj \<Rightarrow> string \<Rightarrow> bool" where
  "suppliedTruthy L reqBody field =
     (if isMissing reqBody field then True
      else if field \<in> set numericFields then truthy (JNum (js_Number L (getProp reqBody field)))
      else list_ex (\<lambda>k. truthy (getProp reqBody k)) (fieldSources field))"

section \<open>A test fixture\<close>

text \<open>
  A small instance of the library functions and of the database, on which the
  handlers are run: numbers and identifiers are parsed from a table, the sum and
  the quotient are the exact ones on finite numbers. A signed token spells out its
  secret and its claims, strings and numbers in unary with their lengths first;
  four more tokens are given by a table that records what each decodes to and the
  secret that signed it.
\<close>

definition fixtureNumbers :: "(string \<times> jsnum) list" where
  "fixtureNumbers =
     [(''0'', Fin 0), (''4'', Fin 4), (''5'', Fin 5), (''20'', Fin 20), (''50'', Fin 50),
      (''150'', Fin 150), (''300'', Fin 300), (''500'', Fin 500)]"

fun ones :: "string \<Rightarrow> nat" where
  "ones [] = 0"
| "ones (c # cs) = (if c = CHR ''1'' then Suc (ones cs) else 0)"

definition encStr :: "string \<Rightarrow> string" where
  "encStr x = replicate (length x) CHR ''1'' @ CHR ''0'' # x"

definition encNat :: "nat \<Rightarrow> string" where
  "encNat n = replicate n CHR ''1'' @ [CHR ''0'']"

definition decStr :: "string \<Rightarrow> string \<times> string" where
  "decStr t = (take (ones t) (drop (Suc (ones t)) t), drop (Suc (ones t) + ones t) t)"

definition decNat :: "string \<Rightarrow> nat \<times> string" where
  "decNat t = (ones t, drop (Suc (ones t)) t)"

definition fixtureSign :: "jwt_payload \<Rightarrow> string \<Rightarrow> string" where
  "fixtureSign p k =
     encStr k @ encStr (case userId p of JStr u \<Rightarrow> u | _ \<Rightarrow> []) @ encStr (p_role p) @
     encNat (iat p) @ encNat (case exp_claim p of JNum (Fin x) \<Rightarrow> nat \<lfloor>x\<rfloor> | _ \<Rightarrow> 0)"

definition fixtureParse :: "string \<Rightarrow> string \<times> jwt_payload" where
  "fixtureParse t =
     (let (k, t1) = decStr t; (u, t2) = decStr t1; (r, t3) = decStr t2;
          (i, t4) = decNat t3; (e, t5) = decNat t4
      in (k, \<lparr>userId = JStr u, p_role = r, iat = i, nbf_claim = JUndefined,
               exp_claim = JNum (Fin (real e))\<rparr>))"

definition annClaims :: jwt_payload where
  "annClaims = \<lparr>userId = JStr ''uA'', p_role = ''venue_owner'', iat = 10,
                 nbf_claim = JUndefined, exp_claim = JNum (Fin 604810)\<rparr>"

definition fixtureTokens :: "(string \<times> jwt_decoded \<times> string) list" where
  "fixtureTokens =
     [(''tok.forged.uA'', Decoded annClaims, ''guessed-secret''),
      (''tok.old.uA'', Decoded annClaims, ''bsbsfbrnsftentwnnwnwn''),
      (''tok.garbled'', PayloadNotJson, ''guessed-secret''),
      (''tok.early.uA'',
         Decoded (annClaims\<lparr>nbf_claim := JNum (Fin 2000), exp_claim := JNum (Fin 1000)\<rparr>),
         ''bsbsfbrnsftentwnnwnwn'')]"

definition fixtureDecode :: "string \<Rightarrow> jwt_decoded" where
  "fixtureDecode t =
     (case map_of fixtureTokens t of
        Some (d, k) \<Rightarrow> d
      | None \<Rightarrow>
          if fixtureSign (snd (fixtureParse t)) (fst (fixtureParse t)) = t
          then Decoded (snd (fixtureParse t)) else NotAToken)"

definition fixtureVerify :: "string \<Rightarrow> string \<Rightarrow> bool" where
  "fixtureVerify t k =
     (case map_of fixtureTokens t of
        Some (d, k') \<Rightarrow> k' = k
      | None \<Rightarrow>
          fixtureSign (snd (fixtureParse t)) (fst (fixtureParse t)) = t
          \<and> fst (fixtureParse t) = k)"

definition newVenueRequest :: "date \<Rightarrow> venue_request" where
  "newVenueRequest now =
     \<lparr>vr_status = Some ''pending'', message = None, response = None, requestedAt = now,
      respondedAt = None\<rparr>"

definition fixtureOtherPaths :: "obj \<Rightarrow> date \<Rightarrow> other_paths option" where
  "fixtureOtherPaths b now =
     (if list_all (\<lambda>k. b k = None) [''requirements'', ''attendees'', ''reviews'', ''venueRequest'']
      then Some \<lparr>op_requirements = [], op_attendees = [], op_reviews = [],
                 op_venueRequest = newVenueRequest now\<rparr>
      else None)"

definition fixtureLib :: jslib where
  "fixtureLib =
     \<lparr>strToNumber = (\<lambda>s. case map_of fixtureNumbers s of None \<Rightarrow> NaN | Some n \<Rightarrow> n),
      numToString = (\<lambda>n. ''0''),
      castObjectId = (\<lambda>v. case v of JStr s \<Rightarrow> if length s = 2 then Some s else None | _ \<Rightarrow> None),
      castDate = (\<lambda>v. case v of JStr s \<Rightarrow> if s = ''2025-06-01'' then Some 1748736000 else None
                               | _ \<Rightarrow> None),
      castOtherPaths = fixtureOtherPaths,
      fadd = (\<lambda>x y. case (x, y) of (Fin a, Fin b) \<Rightarrow> Fin (a + b) | _ \<Rightarrow> NaN),
      fdiv = (\<lambda>x y. case (x, y) of (Fin a, Fin b) \<Rightarrow> if b = 0 then NaN else Fin (a / b)
                                  | _ \<Rightarrow> NaN),
      jwt_sign = fixtureSign,
      jwt_decode = fixtureDecode,
      jws_verify = fixtureVerify,
      bcrypt_hash = (\<lambda>pw. ''$2a$10$'' @ pw),
      bcrypt_compare = (\<lambda>pw h. h = ''$2a$10$'' @ pw)\<rparr>"

definition ownerA :: user_doc where
  "ownerA = \<lparr>u_id = ''uA'', u_name = Some ''Ann'', email = Some ''ann@example.com'',
             password = Some ''$2a$10$ann'', role = ''venue_owner'', venues = [''v1'']\<rparr>"

definition ownerB :: user_doc where
  "ownerB = \<lparr>u_id = ''uB'', u_name = Some ''Bob'', email = Some ''bob@example.com'',
             password = Some ''$2a$10$bob'', role = ''venue_owner'', venues = [''v2'']\<rparr>"

definition organizerO :: user_doc where
  "organizerO = \<lparr>u_id = ''uO'', u_name = Some ''Oli'', email = Some ''oli@example.com'',
                 password = Some ''$2a$10$oli'', role = ''organizer'', venues = []\<rparr>"

definition hall :: venue_doc where
  "hall = \<lparr>v_id = ''v1'', owner = ''uA'', v_name = ''Hall'', address = ''1 Main St'',
           capacity = Fin 100, pricePerDay = Fin 400, amenities = [], v_images = [],
           v_description = None, availability = True, rating = Fin 4,
           v_reviews = [\<lparr>r_user = ''uO'', r_rating = Val (Fin 4), r_comment = Some ''fine'',
                          r_date = 100\<rparr>]\<rparr>"

definition barn :: venue_doc where
  "barn = \<lparr>v_id = ''v2'', owner = ''uB'', v_name = ''Barn'', address = ''2 Side St'',
           capacity = Fin 30, pricePerDay = Fin 90, amenities = [], v_images = [],
           v_description = None, availability = True, rating = Fin 0, v_reviews = []\<rparr>"

definition launch :: event_doc where
  "launch = \<lparr>e_id = ''e1'', organizer = ''uO'', venue = ''v1'', title = ''Launch'',
             description = ''Product launch'', eventDate = 1748736000, eventTime = ''18:00'',
             expectedAttendees = Fin 50, status = Some ''pending'', price = Fin 20,
             requirements = [], images = [], category = ''Conference'', attendees = [],
             e_reviews = [], venueRequest = newVenueRequest 50, budget = Fin 500\<rparr>"

definition fixtureDb :: db where
  "fixtureDb = \<lparr>users = [ownerA, ownerB, organizerO], venue_coll = [hall, barn],
                events = [launch]\<rparr>"

text \<open>
  The same database after the hall has been marked unavailable, after its capacity
  has been cut to 40, after its price has been raised to 600, and after it has
  been removed.
\<close>

definition closedDb :: db where
  "closedDb = fixtureDb\<lparr>venue_coll := [hall\<lparr>availability := False\<rparr>, barn]\<rparr>"

definition shrunkDb :: db where
  "shrunkDb = fixtureDb\<lparr>venue_coll := [hall\<lparr>capacity := Fin 40\<rparr>, barn]\<rparr>"

definition dearDb :: db where
  "dearDb = fixtureDb\<lparr>venue_coll := [hall\<lparr>pricePerDay := Fin 600\<rparr>, barn]\<rparr>"

definition goneDb :: db where
  "goneDb = fixtureDb\<lparr>venue_coll := [barn]\<rparr>"

definition launchForm :: "string \<Rightarrow> string \<Rightarrow> obj" where
  "launchForm headcount money =
     map_of [(''title'', JStr ''Launch''), (''description'', JStr ''Product launch''),
             (''venue'', JStr ''v1''), (''date'', JStr ''2025-06-01''), (''time'', JStr ''18:00''),
             (''expectedAttendees'', JStr headcount), (''budget'', JStr money),
             (''category'', JStr ''Conference''), (''price'', JStr ''20'')]"

text \<open>The event that the fixture's form creates at time 60 under the identifier \<open>e2\<close>.\<close>

definition launchCreated :: event_doc where
  "launchCreated = launch\<lparr>e_id := ''e2'', venueRequest := newVenueRequest 60\<rparr>"

text \<open>
  A complete payload in JSON for an event with the given ticket price; the same
  for a free event; and the free event with the title left out.
\<close>

definition pricedForm :: "jsnum \<Rightarrow> obj" where
  "pricedForm p =
     map_of [(''title'', JStr ''Launch''), (''description'', JStr ''Product launch''),
             (''venue'', JStr ''v1''), (''date'', JStr ''2025-06-01''), (''time'', JStr ''18:00''),
             (''expectedAttendees'', JNum (Fin 50)), (''budget'', JNum (Fin 500)),
             (''category'', JStr ''Conference''), (''price'', JNum p)]"

definition freeForm :: obj where
  "freeForm = pricedForm (Fin 0)"

definition untitledFreeForm :: obj where
  "untitledFreeForm = freeForm(''title'' := None)"



section \<open>Basic facts\<close>

lemma js_mul_one: "js_mul x (Fin 1) = x"
  by (cases x) auto

lemma venueCost_eq: "venueCost v = pricePerDay v"
  by (simp add: venueCost_def eventDuration_def js_mul_one)

lemma getProp_build_other:
  "k \<notin> {''images'', ''organizer'', ''expectedAttendees'', ''budget'', ''price'',
         ''date'', ''eventDate'', ''time'', ''eventTime''} \<Longrightarrow>
   getProp (ed_fields (buildEventData L u files reqBody)) k = getProp reqBody k"
  by (simp add: buildEventData_def renameIfTruthy_def setNumber_def getProp_def)

lemma getProp_build_venue:
  "getProp (ed_fields (buildEventData L u files reqBody)) ''venue'' = getProp reqBody ''venue''"
  by (simp add: getProp_build_other)

lemma getProp_build_attendees:
  "getProp (ed_fields (buildEventData L u files reqBody)) ''expectedAttendees'' =
     JNum (js_Number L (getProp reqBody ''expectedAttendees''))"
  by (simp add: buildEventData_def renameIfTruthy_def setNumber_def getProp_def)

lemma getProp_build_budget:
  "getProp (ed_fields (buildEventData L u files reqBody)) ''budget'' =
     JNum (js_Number L (getProp reqBody ''budget''))"
  by (simp add: buildEventData_def renameIfTruthy_def setNumber_def getProp_def)

lemma getProp_build_price:
  "getProp (ed_fields (buildEventData L u files reqBody)) ''price'' =
     JNum (js_Number L (getProp reqBody ''price''))"
  by (simp add: buildEventData_def renameIfTruthy_def setNumber_def getProp_def)


lemmas fixture_defs =
  fixtureLib_def fixtureNumbers_def fixtureOtherPaths_def newVenueRequest_def fixtureDb_def
  closedDb_def shrunkDb_def dearDb_def goneDb_def ownerA_def ownerB_def organizerO_def
  hall_def barn_def launch_def launchForm_def

lemmas build_defs =
  buildEventData_def renameIfTruthy_def setNumber_def getProp_def missingFields_def
  requiredFields_def

lemma findById_Some:
  "findById L idOf coll v = Inr (Some d) \<Longrightarrow>
   castObjectId L v = Some (idOf d) \<and> find (\<lambda>x. idOf x = idOf d) coll = Some d"
  by (cases v) (auto simp: findById_def find_Some_iff split: option.splits)

lemma preSave_capacity:
  assumes "findByOid v_id (venue_coll s) (venue e) = Some v"
    and "availability v"
    and "js_gt (expectedAttendees e) (capacity v)"
  shows "preSave s e = Some (JsError (capacityMessage (expectedAttendees e) (capacity v)))"
  using assms by (simp add: preSave_def)

lemma event_insert_hook_fails: "preSave s e = Some err \<Longrightarrow> isl (event_insert s e)"
  by (simp add: event_insert_def)

lemma event_save_hook_fails: "preSave s e = Some err \<Longrightarrow> isl (event_save s e)"
  by (simp add: event_save_def)

section \<open>Event creation: capacity\<close>

text \<open>
  C1. An event-creation request that passes the required-field check and names an
  existing, available venue, with more expected attendees than the venue's capacity,
  is answered 400 \<open>Capacity exceeded\<close>; the detail is the text
  \<open>Expected attendees (n) exceed venue capacity (c)\<close> with the expected attendees
  for \<open>n\<close> and the capacity for \<open>c\<close>, and the database is returned as it was. The
  pre-save hook refuses a document in the same situation with an error of the same
  text, so that neither an insert nor a save of it writes anything.
\<close>

theorem capacity_exceeded_rejected:
  assumes required: "missingFields (buildEventData L reqUser files reqBody) = []"
    and found: "findById L v_id (venue_coll s) (getProp reqBody ''venue'') = Inr (Some v)"
    and available: "availability v"
    and exceeds: "js_gt (js_Number L (getProp reqBody ''expectedAttendees'')) (capacity v)"
  shows "post_events L s reqUser files newId now reqBody =
           ((400, ErrorDetails ''Capacity exceeded''
                    [Lit ''Expected attendees ('',
                     NumV (js_Number L (getProp reqBody ''expectedAttendees'')),
                     Lit '') exceed venue capacity ('', NumV (capacity v), Lit '')'']), s)
         \<and> (\<forall>e. venue e = v_id v \<and> js_gt (expectedAttendees e) (capacity v)
              \<longrightarrow> preSave s e =
                    Some (JsError [Lit ''Expected attendees ('', NumV (expectedAttendees e),
                                   Lit '') exceed venue capacity ('', NumV (capacity v), Lit '')''])
                  \<and> isl (event_insert s e) \<and> isl (event_save s e))"
proof
  have "routeBookingChecks L s (buildEventData L reqUser files reqBody) =
          Some (400, ErrorDetails ''Capacity exceeded''
                  (capacityMessage (js_Number L (getProp reqBody ''expectedAttendees''))
                                   (capacity v)))"
    using found available exceeds
    by (simp add: routeBookingChecks_def getProp_build_venue getProp_build_attendees)
  then show "post_events L s reqUser files newId now reqBody =
           ((400, ErrorDetails ''Capacity exceeded''
                    [Lit ''Expected attendees ('',
                     NumV (js_Number L (getProp reqBody ''expectedAttendees'')),
                     Lit '') exceed venue capacity ('', NumV (capacity v), Lit '')'']), s)"
    using required by (simp add: post_events_def capacityMessage_def)
next
  have stored: "findByOid v_id (venue_coll s) (v_id v) = Some v"
    using findById_Some [OF found] by (simp add: findByOid_def)
  show "\<forall>e. venue e = v_id v \<and> js_gt (expectedAttendees e) (capacity v)
              \<longrightarrow> preSave s e =
                    Some (JsError [Lit ''Expected attendees ('', NumV (expectedAttendees e),
                                   Lit '') exceed venue capacity ('', NumV (capacity v), Lit '')''])
                  \<and> isl (event_insert s e) \<and> isl (event_save s e)"
  proof (intro allI impI)
    fix e :: event_doc
    assume h: "venue e = v_id v \<and> js_gt (expectedAttendees e) (capacity v)"
    with stored have p: "preSave s e = Some (JsError (capacityMessage (expectedAttendees e) (capacity v)))"
      using available by (simp add: preSave_capacity)
    show "preSave s e =
            Some (JsError [Lit ''Expected attendees ('', NumV (expectedAttendees e),
                           Lit '') exceed venue capacity ('', NumV (capacity v), Lit '')''])
          \<and> isl (event_insert s e) \<and> isl (event_save s e)"
      using p event_insert_hook_fails [OF p] event_save_hook_fails [OF p]
      by (simp add: capacityMessage_def)
  qed
qed

theorem capacity_exceeded_rejected_witness:
  "missingFields (buildEventData fixtureLib organizerO [] (launchForm ''150'' ''500'')) = []
   \<and> findById fixtureLib v_id (venue_coll fixtureDb) (getProp (launchForm ''150'' ''500'') ''venue'')
       = Inr (Some hall)
   \<and> availability hall
   \<and> js_gt (js_Number fixtureLib (getProp (launchForm ''150'' ''500'') ''expectedAttendees''))
            (capacity hall)
   \<and> post_events fixtureLib fixtureDb organizerO [] ''e2'' 60 (launchForm ''150'' ''500'') =
         ((400, ErrorDetails ''Capacity exceeded''
                  [Lit ''Expected attendees ('', NumV (Fin 150),
                   Lit '') exceed venue capacity ('', NumV (Fin 100), Lit '')'']), fixtureDb)
   \<and> preSave fixtureDb (launch\<lparr>expectedAttendees := Fin 150\<rparr>) =
         Some (JsError [Lit ''Expected attendees ('', NumV (Fin 150),
                        Lit '') exceed venue capacity ('', NumV (Fin 100), Lit '')''])
   \<and> isl (event_insert fixtureDb (launch\<lparr>expectedAttendees := Fin 150\<rparr>))"
proof -
  let ?b = "launchForm ''150'' ''500''"
  let ?e = "launch\<lparr>expectedAttendees := Fin 150\<rparr>"
  have h1: "missingFields (buildEventData fixtureLib organizerO [] ?b) = []"
    by (simp add: build_defs fixture_defs)
  have h2: "findById fixtureLib v_id (venue_coll fixtureDb) (getProp ?b ''venue'') = Inr (Some hall)"
    by (simp add: findById_def getProp_def fixture_defs)
  have h3: "availability hall"
    by (simp add: hall_def)
  have n: "js_Number fixtureLib (getProp ?b ''expectedAttendees'') = Fin 150"
    by (simp add: getProp_def fixture_defs)
  have h4: "js_gt (js_Number fixtureLib (getProp ?b ''expectedAttendees'')) (capacity hall)"
    by (simp add: n js_gt_def hall_def)
  have c: "capacity hall = Fin 100"
    by (simp add: hall_def)
  note T = capacity_exceeded_rejected [OF h1 h2 h3 h4, where newId = "''e2''" and now = 60]
  have r: "post_events fixtureLib fixtureDb organizerO [] ''e2'' 60 ?b =
         ((400, ErrorDetails ''Capacity exceeded''
                  [Lit ''Expected attendees ('', NumV (Fin 150),
                   Lit '') exceed venue capacity ('', NumV (Fin 100), Lit '')'']), fixtureDb)"
    using T by (simp add: n c)
  have pre: "venue ?e = v_id hall \<and> js_gt (expectedAttendees ?e) (capacity hall)"
    by (simp add: js_gt_def fixture_defs)
  have k: "preSave fixtureDb ?e =
             Some (JsError [Lit ''Expected attendees ('', NumV (expectedAttendees ?e),
                            Lit '') exceed venue capacity ('', NumV (capacity hall), Lit '')''])
           \<and> isl (event_insert fixtureDb ?e) \<and> isl (event_save fixtureDb ?e)"
    using T pre by blast
  then have k': "preSave fixtureDb ?e =
             Some (JsError [Lit ''Expected attendees ('', NumV (Fin 150),
                            Lit '') exceed venue capacity ('', NumV (Fin 100), Lit '')''])
           \<and> isl (event_insert fixtureDb ?e)"
    by (simp add: c)
  show ?thesis using h1 h2 h3 h4 r k' by simp
qed

section \<open>Event creation: budget\<close>

lemma missingFields_empty:
  "missingFields ed = [] \<Longrightarrow> f \<in> set requiredFields \<Longrightarrow> truthy (getProp (ed_fields ed) f)"
  by (auto simp: missingFields_def filter_empty_conv)

lemma budget_not_NaN:
  assumes "missingFields (buildEventData L reqUser files reqBody) = []"
  shows "js_Number L (getProp reqBody ''budget'') \<noteq> NaN"
proof -
  have "truthy (getProp (ed_fields (buildEventData L reqUser files reqBody)) ''budget'')"
    using assms by (rule missingFields_empty) (simp add: requiredFields_def)
  then show ?thesis by (simp add: getProp_build_budget)
qed

text \<open>
  C2. The venue cost is the price per day times the duration, fixed at 1. An
  event-creation request that passes the required-field check and names an existing,
  available venue that its expected attendees fit, with a budget below the venue
  cost, is answered 400 \<open>Insufficient budget\<close>; the detail is the text
  \<open>Budget (b) is insufficient for venue cost (c)\<close> with the budget for \<open>b\<close> and the
  venue cost for \<open>c\<close>, and nothing is written. Whenever such a request is answered
  201 or changes the database, the budget is at least the venue cost. The price of
  a stored venue is a number: the schema's Number cast refuses NaN.
\<close>

theorem insufficient_budget_rejected:
  assumes required: "missingFields (buildEventData L reqUser files reqBody) = []"
    and found: "findById L v_id (venue_coll s) (getProp reqBody ''venue'') = Inr (Some v)"
    and available: "availability v"
    and fits: "\<not> js_gt (js_Number L (getProp reqBody ''expectedAttendees'')) (capacity v)"
    and price: "pricePerDay v \<noteq> NaN"
  shows "venueCost v = js_mul (pricePerDay v) (Fin 1)
         \<and> (js_lt (js_Number L (getProp reqBody ''budget'')) (js_mul (pricePerDay v) (Fin 1)) \<longrightarrow>
              post_events L s reqUser files newId now reqBody =
                ((400, ErrorDetails ''Insufficient budget''
                         [Lit ''Budget ('', NumV (js_Number L (getProp reqBody ''budget'')),
                          Lit '') is insufficient for venue cost ('',
                          NumV (js_mul (pricePerDay v) (Fin 1)), Lit '')'']), s))
         \<and> (fst (fst (post_events L s reqUser files newId now reqBody)) = 201
              \<or> snd (post_events L s reqUser files newId now reqBody) \<noteq> s \<longrightarrow>
              js_ge (js_Number L (getProp reqBody ''budget'')) (js_mul (pricePerDay v) (Fin 1)))"
proof (intro conjI impI)
  show c: "venueCost v = js_mul (pricePerDay v) (Fin 1)"
    by (simp add: venueCost_def eventDuration_def)
  have rejected: "post_events L s reqUser files newId now reqBody =
                ((400, ErrorDetails ''Insufficient budget''
                         [Lit ''Budget ('', NumV (js_Number L (getProp reqBody ''budget'')),
                          Lit '') is insufficient for venue cost ('',
                          NumV (js_mul (pricePerDay v) (Fin 1)), Lit '')'']), s)"
    if low: "js_lt (js_Number L (getProp reqBody ''budget'')) (js_mul (pricePerDay v) (Fin 1))"
  proof -
    have "routeBookingChecks L s (buildEventData L reqUser files reqBody) =
          Some (400, ErrorDetails ''Insufficient budget''
                  (budgetMessage (js_Number L (getProp reqBody ''budget'')) (venueCost v)))"
      using found available fits low
      by (simp add: routeBookingChecks_def getProp_build_venue getProp_build_attendees
          getProp_build_budget c)
    then show ?thesis
      using required by (simp add: post_events_def budgetMessage_def c)
  qed
  {
    assume "js_lt (js_Number L (getProp reqBody ''budget'')) (js_mul (pricePerDay v) (Fin 1))"
    then show "post_events L s reqUser files newId now reqBody =
                ((400, ErrorDetails ''Insufficient budget''
                         [Lit ''Budget ('', NumV (js_Number L (getProp reqBody ''budget'')),
                          Lit '') is insufficient for venue cost ('',
                          NumV (js_mul (pricePerDay v) (Fin 1)), Lit '')'']), s)"
      by (rule rejected)
  }
  {
    assume created: "fst (fst (post_events L s reqUser files newId now reqBody)) = 201
              \<or> snd (post_events L s reqUser files newId now reqBody) \<noteq> s"
    have cost: "js_mul (pricePerDay v) (Fin 1) \<noteq> NaN"
      using price by (simp add: js_mul_one)
    have "\<not> js_lt (js_Number L (getProp reqBody ''budget'')) (js_mul (pricePerDay v) (Fin 1))"
      using rejected created by auto
    with cost budget_not_NaN [OF required]
    show "js_ge (js_Number L (getProp reqBody ''budget'')) (js_mul (pricePerDay v) (Fin 1))"
      by (simp add: js_ge_def)
  }
qed

lemmas create_defs =
  EventModel_create_def newEventDoc_def requiredString_def requiredNumber_def
  requiredObjectId_def requiredDate_def event_insert_def eventValid_def js_ge_def enumOk_def
  statusEnum_def categoryEnum_def venueRequestEnum_def preSave_def findByOid_def

lemma fixture_create_500:
  "post_events fixtureLib fixtureDb organizerO [] ''e2'' 60 (launchForm ''50'' ''500'') =
     ((201, EventBody launchCreated), fixtureDb\<lparr>events := [launch, launchCreated]\<rparr>)"
  by (simp add: post_events_def build_defs fixture_defs routeBookingChecks_def findById_def
      js_gt_def venueCost_eq create_defs launchCreated_def)

theorem insufficient_budget_rejected_witness:
  "missingFields (buildEventData fixtureLib organizerO [] (launchForm ''50'' ''300'')) = []
   \<and> findById fixtureLib v_id (venue_coll fixtureDb) (getProp (launchForm ''50'' ''300'') ''venue'')
       = Inr (Some hall)
   \<and> availability hall
   \<and> \<not> js_gt (js_Number fixtureLib (getProp (launchForm ''50'' ''300'') ''expectedAttendees''))
              (capacity hall)
   \<and> pricePerDay hall \<noteq> NaN
   \<and> js_lt (js_Number fixtureLib (getProp (launchForm ''50'' ''300'') ''budget''))
           (js_mul (pricePerDay hall) (Fin 1))
   \<and> post_events fixtureLib fixtureDb organizerO [] ''e2'' 60 (launchForm ''50'' ''300'') =
         ((400, ErrorDetails ''Insufficient budget''
                  [Lit ''Budget ('', NumV (Fin 300),
                   Lit '') is insufficient for venue cost ('', NumV (Fin 400), Lit '')'']),
          fixtureDb)
   \<and> fst (fst (post_events fixtureLib fixtureDb organizerO [] ''e2'' 60 (launchForm ''50'' ''500'')))
       = 201
   \<and> js_ge (js_Number fixtureLib (getProp (launchForm ''50'' ''500'') ''budget''))
           (js_mul (pricePerDay hall) (Fin 1))"
proof -
  let ?low = "launchForm ''50'' ''300''"
  let ?ok = "launchForm ''50'' ''500''"
  have h1: "missingFields (buildEventData fixtureLib organizerO [] ?low) = []"
    and g1: "missingFields (buildEventData fixtureLib organizerO [] ?ok) = []"
    by (simp_all add: build_defs fixture_defs)
  have h2: "findById fixtureLib v_id (venue_coll fixtureDb) (getProp ?low ''venue'') = Inr (Some hall)"
    and g2: "findById fixtureLib v_id (venue_coll fixtureDb) (getProp ?ok ''venue'') = Inr (Some hall)"
    by (simp_all add: findById_def getProp_def fixture_defs)
  have h3: "availability hall"
    by (simp add: hall_def)
  have h4: "\<not> js_gt (js_Number fixtureLib (getProp ?low ''expectedAttendees'')) (capacity hall)"
    and g4: "\<not> js_gt (js_Number fixtureLib (getProp ?ok ''expectedAttendees'')) (capacity hall)"
    by (simp_all add: getProp_def js_gt_def fixture_defs)
  have h5: "pricePerDay hall \<noteq> NaN"
    by (simp add: hall_def)
  have b: "js_Number fixtureLib (getProp ?low ''budget'') = Fin 300"
    by (simp add: getProp_def fixture_defs)
  have c: "js_mul (pricePerDay hall) (Fin 1) = Fin 400"
    by (simp add: hall_def)
  have low: "js_lt (js_Number fixtureLib (getProp ?low ''budget'')) (js_mul (pricePerDay hall) (Fin 1))"
    by (simp add: b c)
  have r: "post_events fixtureLib fixtureDb organizerO [] ''e2'' 60 ?low =
         ((400, ErrorDetails ''Insufficient budget''
                  [Lit ''Budget ('', NumV (Fin 300),
                   Lit '') is insufficient for venue cost ('', NumV (Fin 400), Lit '')'']),
          fixtureDb)"
    using insufficient_budget_rejected [OF h1 h2 h3 h4 h5, where newId = "''e2''" and now = 60] low
    by (simp add: b c)
  have created: "fst (fst (post_events fixtureLib fixtureDb organizerO [] ''e2'' 60 ?ok)) = 201"
    by (simp add: fixture_create_500)
  have ge: "js_ge (js_Number fixtureLib (getProp ?ok ''budget'')) (js_mul (pricePerDay hall) (Fin 1))"
    using insufficient_budget_rejected [OF g1 g2 h3 g4 h5, where newId = "''e2''" and now = 60] created
    by blast
  show ?thesis using h1 h2 h3 h4 h5 low r created ge by simp
qed

section \<open>Venue requests\<close>

lemma find_replaceById:
  "find (\<lambda>x. idOf x = i) xs = Some x0 \<Longrightarrow> idOf d = i \<Longrightarrow>
   find (\<lambda>x. idOf x = i) (replaceById idOf d xs) = Some d"
  by (induction xs) (auto split: if_splits)

lemma findById_replaceById:
  assumes "findById L idOf coll (JStr p) = Inr (Some d)" and "idOf d' = idOf d"
  shows "findById L idOf (replaceById idOf d' coll) (JStr p) = Inr (Some d')"
proof -
  from findById_Some [OF assms(1)]
  have c: "castObjectId L (JStr p) = Some (idOf d)"
    and f: "find (\<lambda>x. idOf x = idOf d) coll = Some d" by simp_all
  from find_replaceById [OF f assms(2)] c show ?thesis
    by (simp add: findById_def)
qed

lemma preSave_same_booking:
  "venue e' = venue e \<Longrightarrow> expectedAttendees e' = expectedAttendees e \<Longrightarrow> budget e' = budget e
   \<Longrightarrow> preSave s e' = preSave s e"
  by (simp add: preSave_def split: option.splits)

lemma event_save_hook_Inl:
  "preSave s e = Some err \<Longrightarrow> \<exists>x. event_save s e = Inl x"
  by (simp add: event_save_def)

lemma case_event_save_refused:
  "preSave s e = Some err \<Longrightarrow> (case event_save s e of Inl x \<Rightarrow> a | Inr s' \<Rightarrow> b s') = a"
  by (simp add: event_save_def)

lemma event_save_Inr:
  "event_save s e = Inr s' \<Longrightarrow> s' = s\<lparr>events := replaceById e_id e (events s)\<rparr>"
  by (auto simp: event_save_def split: if_splits option.splits)

lemma decide_fields:
  "e_id (decideVenueRequest L now reqBody e) = e_id e"
  "venue (decideVenueRequest L now reqBody e) = venue e"
  "expectedAttendees (decideVenueRequest L now reqBody e) = expectedAttendees e"
  "budget (decideVenueRequest L now reqBody e) = budget e"
  by (simp_all add: decideVenueRequest_def)

text \<open>
  C3. When the event of a venue-request transition exists and the actor is not a
  \<open>venue_owner\<close> whose list of venues holds the event's venue, the handler answers
  403 \<open>Unauthorized\<close> and returns the database as it was, so \<open>venueRequest.status\<close>
  and every other path of the event are unchanged.
\<close>

theorem venue_request_forbidden:
  assumes found: "findById L e_id (events s) (JStr idParam) = Inr (Some e)"
    and stranger: "\<not> (role reqUser = ''venue_owner'' \<and> venue e \<in> set (venues reqUser))"
  shows "patch_venue_request L s reqUser idParam now reqBody = ((403, ErrorBody ''Unauthorized''), s)"
  using found stranger by (auto simp: patch_venue_request_def)

theorem venue_request_forbidden_witness:
  "findById fixtureLib e_id (events fixtureDb) (JStr ''e1'') = Inr (Some launch)
   \<and> \<not> (role ownerB = ''venue_owner'' \<and> venue launch \<in> set (venues ownerB))
   \<and> patch_venue_request fixtureLib fixtureDb ownerB ''e1'' 70
        (map_of [(''action'', JStr ''approved''), (''response'', JStr ''welcome'')])
      = ((403, ErrorBody ''Unauthorized''), fixtureDb)"
proof -
  have h1: "findById fixtureLib e_id (events fixtureDb) (JStr ''e1'') = Inr (Some launch)"
    by (simp add: findById_def fixture_defs)
  have h2: "\<not> (role ownerB = ''venue_owner'' \<and> venue launch \<in> set (venues ownerB))"
    by (simp add: fixture_defs)
  show ?thesis using venue_request_forbidden [OF h1 h2] h1 h2 by simp
qed

text \<open>
  C4. When the owning \<open>venue_owner\<close> decides a venue request with the action
  \<open>approved\<close> or \<open>rejected\<close> and a response message, and the handler answers 200,
  the event stored under the identifier afterwards is the one returned: its
  \<open>venueRequest.status\<close> is the action, its \<open>venueRequest.response\<close> the message, its
  \<open>venueRequest.respondedAt\<close> the current time, and its \<open>status\<close> the action.
\<close>

theorem venue_request_decided:
  assumes found: "findById L e_id (events s) (JStr idParam) = Inr (Some e)"
    and owns: "role reqUser = ''venue_owner'' \<and> venue e \<in> set (venues reqUser)"
    and action: "getProp reqBody ''action'' = JStr a" "a = ''approved'' \<or> a = ''rejected''"
    and msg: "getProp reqBody ''response'' = JStr m"
    and success: "fst (fst (patch_venue_request L s reqUser idParam now reqBody)) = 200"
  shows "\<exists>e'. patch_venue_request L s reqUser idParam now reqBody =
                 ((200, SuccessEvent e'), s\<lparr>events := replaceById e_id e' (events s)\<rparr>)
              \<and> findById L e_id (events (snd (patch_venue_request L s reqUser idParam now reqBody)))
                   (JStr idParam) = Inr (Some e')
              \<and> vr_status (venueRequest e') = Some a
              \<and> response (venueRequest e') = Some m
              \<and> respondedAt (venueRequest e') = Some now
              \<and> status e' = Some a"
proof -
  let ?e = "decideVenueRequest L now reqBody e"
  from success found owns obtain s' where saved: "event_save s ?e = Inr s'"
    by (auto simp: patch_venue_request_def split: sum.splits)
  have s': "s' = s\<lparr>events := replaceById e_id ?e (events s)\<rparr>"
    using saved by (rule event_save_Inr)
  have r: "patch_venue_request L s reqUser idParam now reqBody = ((200, SuccessEvent ?e), s')"
    using found owns saved by (simp add: patch_venue_request_def)
  have f: "findById L e_id (events s') (JStr idParam) = Inr (Some ?e)"
    using findById_replaceById [OF found, of ?e] by (simp add: s' decide_fields)
  have fields: "vr_status (venueRequest ?e) = Some a \<and> response (venueRequest ?e) = Some m
       \<and> respondedAt (venueRequest ?e) = Some now \<and> status ?e = Some a"
    using action msg by (auto simp: decideVenueRequest_def)
  show ?thesis using r f fields s' by auto
qed


theorem venue_request_decided_witness:
  "findById fixtureLib e_id (events fixtureDb) (JStr ''e1'') = Inr (Some launch)
   \<and> (role ownerA = ''venue_owner'' \<and> venue launch \<in> set (venues ownerA))
   \<and> getProp (map_of [(''action'', JStr ''approved''), (''response'', JStr ''welcome'')]) ''action''
       = JStr ''approved''
   \<and> getProp (map_of [(''action'', JStr ''approved''), (''response'', JStr ''welcome'')]) ''response''
       = JStr ''welcome''
   \<and> fst (fst (patch_venue_request fixtureLib fixtureDb ownerA ''e1'' 70
        (map_of [(''action'', JStr ''approved''), (''response'', JStr ''welcome'')]))) = 200
   \<and> (\<exists>e'. findById fixtureLib e_id
              (events (snd (patch_venue_request fixtureLib fixtureDb ownerA ''e1'' 70
                 (map_of [(''action'', JStr ''approved''), (''response'', JStr ''welcome'')]))))
              (JStr ''e1'') = Inr (Some e')
          \<and> vr_status (venueRequest e') = Some ''approved''
          \<and> response (venueRequest e') = Some ''welcome''
          \<and> respondedAt (venueRequest e') = Some 70
          \<and> status e' = Some ''approved'')"
proof -
  let ?b = "map_of [(''action'', JStr ''approved''), (''response'', JStr ''welcome'')]"
  have h1: "findById fixtureLib e_id (events fixtureDb) (JStr ''e1'') = Inr (Some launch)"
    by (simp add: findById_def fixture_defs)
  have h2: "role ownerA = ''venue_owner'' \<and> venue launch \<in> set (venues ownerA)"
    by (simp add: fixture_defs)
  have h3: "getProp ?b ''action'' = JStr ''approved''"
    by (simp add: getProp_def)
  have h4: "''approved'' = ''approved'' \<or> ''approved'' = ''rejected''"
    by simp
  have h5: "getProp ?b ''response'' = JStr ''welcome''"
    by (simp add: getProp_def)
  have h6: "fst (fst (patch_venue_request fixtureLib fixtureDb ownerA ''e1'' 70 ?b)) = 200"
    by (simp add: patch_venue_request_def findById_def decideVenueRequest_def getProp_def
        event_save_def eventValid_def js_ge_def enumOk_def statusEnum_def categoryEnum_def
        venueRequestEnum_def preSave_def findByOid_def js_gt_def venueCost_eq fixture_defs)
  from venue_request_decided [OF h1 h2 h3 h4 h5 h6]
  have "\<exists>e'. findById fixtureLib e_id
              (events (snd (patch_venue_request fixtureLib fixtureDb ownerA ''e1'' 70 ?b)))
              (JStr ''e1'') = Inr (Some e')
          \<and> vr_status (venueRequest e') = Some ''approved''
          \<and> response (venueRequest e') = Some ''welcome''
          \<and> respondedAt (venueRequest e') = Some 70
          \<and> status e' = Some ''approved''"
    by blast
  then show ?thesis using h1 h2 h3 h5 h6 by simp
qed


section \<open>The hook on every save\<close>

lemma preSave_refuses_iff:
  "(preSave s e \<noteq> None) =
     (findByOid v_id (venue_coll s) (venue e) = None
      \<or> (\<exists>v. findByOid v_id (venue_coll s) (venue e) = Some v
              \<and> (\<not> availability v \<or> js_gt (expectedAttendees e) (capacity v)
                   \<or> js_lt (budget e) (js_mul (pricePerDay v) (Fin 1)))))"
  by (auto simp: preSave_def venueCost_def eventDuration_def split: option.splits)

text \<open>
  C10. Let an event fail one of the four checks against the venues as they are now:
  its venue is not stored, or is not available, or has a capacity below the expected
  attendees, or costs (its price per day times 1) more than the budget. Then no save
  of the event writes: the insert of a creation and the save of a loaded document
  fail, and so does \<open>EventModel.create\<close>; a status update, an event review and a
  venue-request decision on that stored event end in an error response (500, or 403
  for an actor who is not allowed) with the database as it was.
\<close>

theorem every_event_save_checks_venue:
  assumes refused:
    "findByOid v_id (venue_coll s) (venue e) = None
     \<or> (\<exists>v. findByOid v_id (venue_coll s) (venue e) = Some v
             \<and> (\<not> availability v \<or> js_gt (expectedAttendees e) (capacity v)
                  \<or> js_lt (budget e) (js_mul (pricePerDay v) (Fin 1))))"
  shows "isl (event_insert s e) \<and> isl (event_save s e)
         \<and> (\<forall>ed. newEventDoc L newId now ed = Some e \<longrightarrow> isl (EventModel_create L s newId now ed))
         \<and> (findById L e_id (events s) (JStr idParam) = Inr (Some e) \<longrightarrow>
              (put_event_status L s reqUser idParam reqBody =
                 ((500, ErrorBody ''Failed to update event status''), s)
               \<or> put_event_status L s reqUser idParam reqBody =
                 ((403, ErrorBody ''Not authorized''), s))
              \<and> post_event_review L s reqUser idParam now reqBody =
                  ((500, ErrorBody ''Failed to add review''), s)
              \<and> (patch_venue_request L s reqUser idParam now reqBody =
                   ((500, ErrorBody ''Failed to process venue request''), s)
                 \<or> patch_venue_request L s reqUser idParam now reqBody =
                   ((403, ErrorBody ''Unauthorized''), s)))"
proof -
  from refused have "preSave s e \<noteq> None"
    by (simp only: preSave_refuses_iff)
  then obtain err where hook: "preSave s e = Some err"
    by auto
  show ?thesis
  proof (intro conjI allI impI)
    show "isl (event_insert s e)" using hook by (rule event_insert_hook_fails)
    show "isl (event_save s e)" using hook by (rule event_save_hook_fails)
  next
    fix ed assume "newEventDoc L newId now ed = Some e"
    then show "isl (EventModel_create L s newId now ed)"
      using event_insert_hook_fails [OF hook]
      by (auto simp: EventModel_create_def split: sum.splits)
  next
    assume found: "findById L e_id (events s) (JStr idParam) = Inr (Some e)"
    have "preSave s (e\<lparr>status := mg_castString L (getProp reqBody ''status'')\<rparr>) = preSave s e"
      by (rule preSave_same_booking) simp_all
    with hook have "preSave s (e\<lparr>status := mg_castString L (getProp reqBody ''status'')\<rparr>) = Some err"
      by simp
    then obtain x where "event_save s (e\<lparr>status := mg_castString L (getProp reqBody ''status'')\<rparr>) = Inl x"
      using event_save_hook_Inl by blast
    then show "put_event_status L s reqUser idParam reqBody =
                   ((500, ErrorBody ''Failed to update event status''), s)
                 \<or> put_event_status L s reqUser idParam reqBody =
                   ((403, ErrorBody ''Not authorized''), s)"
      using found by (simp add: put_event_status_def split: option.splits)
  next
    assume found: "findById L e_id (events s) (JStr idParam) = Inr (Some e)"
    have "\<And>r. preSave s (e\<lparr>e_reviews := e_reviews e @ [r]\<rparr>) = preSave s e"
      by (rule preSave_same_booking) simp_all
    with hook have "\<And>r. preSave s (e\<lparr>e_reviews := e_reviews e @ [r]\<rparr>) = Some err"
      by simp
    then show "post_event_review L s reqUser idParam now reqBody =
                    ((500, ErrorBody ''Failed to add review''), s)"
      using found by (simp add: post_event_review_def case_event_save_refused split: cast.splits)
  next
    assume found: "findById L e_id (events s) (JStr idParam) = Inr (Some e)"
    have "preSave s (decideVenueRequest L now reqBody e) = preSave s e"
      by (rule preSave_same_booking) (simp_all add: decide_fields)
    with hook have "preSave s (decideVenueRequest L now reqBody e) = Some err"
      by simp
    then obtain x where "event_save s (decideVenueRequest L now reqBody e) = Inl x"
      using event_save_hook_Inl by blast
    then show "patch_venue_request L s reqUser idParam now reqBody =
                     ((500, ErrorBody ''Failed to process venue request''), s)
                   \<or> patch_venue_request L s reqUser idParam now reqBody =
                     ((403, ErrorBody ''Unauthorized''), s)"
      using found by (simp add: patch_venue_request_def)
  qed
qed

lemma fixture_decision_not_403:
  "venue_coll s' = vs \<Longrightarrow> users s' = users fixtureDb \<Longrightarrow> events s' = events fixtureDb \<Longrightarrow>
   patch_venue_request fixtureLib s' ownerA ''e1'' 70
     (map_of [(''action'', JStr ''approved''), (''response'', JStr ''welcome'')])
   \<noteq> ((403, ErrorBody ''Unauthorized''), s')"
  by (simp add: patch_venue_request_def findById_def fixtureLib_def fixtureDb_def launch_def
      ownerA_def split: sum.splits)

theorem every_event_save_checks_venue_witness:
  "findByOid v_id (venue_coll goneDb) (venue launch) = None
   \<and> patch_venue_request fixtureLib goneDb ownerA ''e1'' 70
         (map_of [(''action'', JStr ''approved''), (''response'', JStr ''welcome'')])
       = ((500, ErrorBody ''Failed to process venue request''), goneDb)
   \<and> findByOid v_id (venue_coll closedDb) (venue launch) = Some (hall\<lparr>availability := False\<rparr>)
   \<and> \<not> availability (hall\<lparr>availability := False\<rparr>)
   \<and> patch_venue_request fixtureLib closedDb ownerA ''e1'' 70
         (map_of [(''action'', JStr ''approved''), (''response'', JStr ''welcome'')])
       = ((500, ErrorBody ''Failed to process venue request''), closedDb)
   \<and> findByOid v_id (venue_coll shrunkDb) (venue launch) = Some (hall\<lparr>capacity := Fin 40\<rparr>)
   \<and> js_gt (expectedAttendees launch) (capacity (hall\<lparr>capacity := Fin 40\<rparr>))
   \<and> patch_venue_request fixtureLib shrunkDb ownerA ''e1'' 70
         (map_of [(''action'', JStr ''approved''), (''response'', JStr ''welcome'')])
       = ((500, ErrorBody ''Failed to process venue request''), shrunkDb)
   \<and> findByOid v_id (venue_coll dearDb) (venue launch) = Some (hall\<lparr>pricePerDay := Fin 600\<rparr>)
   \<and> js_lt (budget launch) (js_mul (pricePerDay (hall\<lparr>pricePerDay := Fin 600\<rparr>)) (Fin 1))
   \<and> patch_venue_request fixtureLib dearDb ownerA ''e1'' 70
         (map_of [(''action'', JStr ''approved''), (''response'', JStr ''welcome'')])
       = ((500, ErrorBody ''Failed to process venue request''), dearDb)
   \<and> isl (event_save dearDb launch)
   \<and> post_event_review fixtureLib shrunkDb organizerO ''e1'' 70
         (map_of [(''rating'', JNum (Fin 5)), (''comment'', JStr ''great'')])
       = ((500, ErrorBody ''Failed to add review''), shrunkDb)"
proof -
  let ?b = "map_of [(''action'', JStr ''approved''), (''response'', JStr ''welcome'')]"
  have f: "findById fixtureLib e_id (events goneDb) (JStr ''e1'') = Inr (Some launch)"
    "findById fixtureLib e_id (events closedDb) (JStr ''e1'') = Inr (Some launch)"
    "findById fixtureLib e_id (events shrunkDb) (JStr ''e1'') = Inr (Some launch)"
    "findById fixtureLib e_id (events dearDb) (JStr ''e1'') = Inr (Some launch)"
    by (simp_all add: findById_def fixture_defs)
  have g: "findByOid v_id (venue_coll goneDb) (venue launch) = None"
    by (simp add: findByOid_def fixture_defs)
  have c: "findByOid v_id (venue_coll closedDb) (venue launch) = Some (hall\<lparr>availability := False\<rparr>)"
    "\<not> availability (hall\<lparr>availability := False\<rparr>)"
    by (simp_all add: findByOid_def fixture_defs)
  have k: "findByOid v_id (venue_coll shrunkDb) (venue launch) = Some (hall\<lparr>capacity := Fin 40\<rparr>)"
    "js_gt (expectedAttendees launch) (capacity (hall\<lparr>capacity := Fin 40\<rparr>))"
    by (simp_all add: findByOid_def js_gt_def fixture_defs)
  have d: "findByOid v_id (venue_coll dearDb) (venue launch) = Some (hall\<lparr>pricePerDay := Fin 600\<rparr>)"
    "js_lt (budget launch) (js_mul (pricePerDay (hall\<lparr>pricePerDay := Fin 600\<rparr>)) (Fin 1))"
    by (simp_all add: findByOid_def fixture_defs)
  have Tg: "patch_venue_request fixtureLib goneDb ownerA ''e1'' 70 ?b
       = ((500, ErrorBody ''Failed to process venue request''), goneDb)"
    using every_event_save_checks_venue [where s = goneDb and e = launch and L = fixtureLib
        and idParam = "''e1''" and now = 70 and reqUser = ownerA and reqBody = ?b] g f(1)
      fixture_decision_not_403 [of goneDb "[barn]"]
    by (simp add: goneDb_def fixtureDb_def)
  have Tc: "patch_venue_request fixtureLib closedDb ownerA ''e1'' 70 ?b
       = ((500, ErrorBody ''Failed to process venue request''), closedDb)"
    using every_event_save_checks_venue [where s = closedDb and e = launch and L = fixtureLib
        and idParam = "''e1''" and now = 70 and reqUser = ownerA and reqBody = ?b] c f(2)
      fixture_decision_not_403 [of closedDb "venue_coll closedDb"]
    by (simp add: closedDb_def fixtureDb_def)
  have Tk: "patch_venue_request fixtureLib shrunkDb ownerA ''e1'' 70 ?b
       = ((500, ErrorBody ''Failed to process venue request''), shrunkDb)"
    using every_event_save_checks_venue [where s = shrunkDb and e = launch and L = fixtureLib
        and idParam = "''e1''" and now = 70 and reqUser = ownerA and reqBody = ?b] k f(3)
      fixture_decision_not_403 [of shrunkDb "venue_coll shrunkDb"]
    by (simp add: shrunkDb_def fixtureDb_def)
  note D = every_event_save_checks_venue [where s = dearDb and e = launch and L = fixtureLib
        and idParam = "''e1''" and now = 70 and reqUser = ownerA and reqBody = ?b]
  have Td: "patch_venue_request fixtureLib dearDb ownerA ''e1'' 70 ?b
       = ((500, ErrorBody ''Failed to process venue request''), dearDb)"
    using D d f(4) fixture_decision_not_403 [of dearDb "venue_coll dearDb"]
    by (simp add: dearDb_def fixtureDb_def)
  have sv: "isl (event_save dearDb launch)"
    using D d by simp
  have rv: "post_event_review fixtureLib shrunkDb organizerO ''e1'' 70
         (map_of [(''rating'', JNum (Fin 5)), (''comment'', JStr ''great'')])
       = ((500, ErrorBody ''Failed to add review''), shrunkDb)"
    using every_event_save_checks_venue [where s = shrunkDb and e = launch and L = fixtureLib
        and idParam = "''e1''" and now = 70 and reqUser = organizerO
        and reqBody = "map_of [(''rating'', JNum (Fin 5)), (''comment'', JStr ''great'')]"] k f(3)
    by simp
  show ?thesis using g c k d Tg Tc Tk Td sv rv by simp
qed

section \<open>The two copies of the booking checks\<close>

lemma requiredNumber_js_Number: "requiredNumber L v = Some n \<Longrightarrow> js_Number L v = n"
  by (cases v) (auto simp: requiredNumber_def split: if_splits)

lemma requiredObjectId_findById:
  "requiredObjectId L v = Some i \<Longrightarrow> findById L idOf coll v = Inr (findByOid idOf coll i)"
  by (cases v) (auto simp: requiredObjectId_def findById_def findByOid_def)

lemma newEventDoc_booking:
  assumes "newEventDoc L newId now ed = Some e"
  shows "requiredObjectId L (getProp (ed_fields ed) ''venue'') = Some (venue e)"
    and "requiredNumber L (getProp (ed_fields ed) ''expectedAttendees'') = Some (expectedAttendees e)"
    and "requiredNumber L (getProp (ed_fields ed) ''budget'') = Some (budget e)"
  using assms by (auto simp: newEventDoc_def split: Option.bind_splits)

text \<open>
  C8. For every payload from which \<open>EventModel.create\<close> builds a document, and for
  every state of the venues, the route-level venue checks (existence, availability,
  capacity, budget) let the request through exactly when the pre-save hook lets the
  document through.
\<close>

theorem route_checks_agree_with_hook:
  assumes doc: "newEventDoc L newId now ed = Some e"
  shows "(routeBookingChecks L s ed = None) = (preSave s e = None)"
proof -
  note b = newEventDoc_booking [OF doc]
  have v: "findById L v_id (venue_coll s) (getProp (ed_fields ed) ''venue'') =
             Inr (findByOid v_id (venue_coll s) (venue e))"
    using b(1) by (rule requiredObjectId_findById)
  have n: "js_Number L (getProp (ed_fields ed) ''expectedAttendees'') = expectedAttendees e"
    using b(2) by (rule requiredNumber_js_Number)
  have m: "js_Number L (getProp (ed_fields ed) ''budget'') = budget e"
    using b(3) by (rule requiredNumber_js_Number)
  show ?thesis
    by (simp add: routeBookingChecks_def preSave_def v n m split: option.splits)
qed

lemma fixture_newEventDoc:
  "newEventDoc fixtureLib ''e2'' 60 (buildEventData fixtureLib organizerO [] (launchForm ''50'' ''500''))
     = Some launchCreated"
  by (simp add: build_defs fixture_defs create_defs launchCreated_def)

theorem route_checks_agree_with_hook_witness:
  "newEventDoc fixtureLib ''e2'' 60 (buildEventData fixtureLib organizerO [] (launchForm ''50'' ''500''))
     = Some launchCreated
   \<and> routeBookingChecks fixtureLib fixtureDb
        (buildEventData fixtureLib organizerO [] (launchForm ''50'' ''500'')) = None
   \<and> preSave fixtureDb launchCreated = None
   \<and> routeBookingChecks fixtureLib closedDb
        (buildEventData fixtureLib organizerO [] (launchForm ''50'' ''500'')) \<noteq> None
   \<and> preSave closedDb launchCreated \<noteq> None"
proof -
  have p: "preSave fixtureDb launchCreated = None"
    by (simp add: preSave_def findByOid_def js_gt_def venueCost_eq fixture_defs launchCreated_def)
  have q: "preSave closedDb launchCreated \<noteq> None"
    by (simp add: preSave_def findByOid_def fixture_defs launchCreated_def)
  show ?thesis
    using route_checks_agree_with_hook [OF fixture_newEventDoc, of fixtureDb]
      route_checks_agree_with_hook [OF fixture_newEventDoc, of closedDb]
      fixture_newEventDoc p q by simp
qed

section \<open>Event creation: required fields\<close>

lemma getProp_build_eventDate:
  "getProp (ed_fields (buildEventData L u files reqBody)) ''eventDate'' =
     (if truthy (getProp reqBody ''date'') then getProp reqBody ''date''
      else getProp reqBody ''eventDate'')"
  by (simp add: buildEventData_def renameIfTruthy_def setNumber_def getProp_def)

lemma getProp_build_eventTime:
  "getProp (ed_fields (buildEventData L u files reqBody)) ''eventTime'' =
     (if truthy (getProp reqBody ''time'') then getProp reqBody ''time''
      else getProp reqBody ''eventTime'')"
  by (simp add: buildEventData_def renameIfTruthy_def setNumber_def getProp_def)

lemmas getProp_build =
  getProp_build_other getProp_build_attendees getProp_build_budget getProp_build_price
  getProp_build_eventDate getProp_build_eventTime

lemma isMissing_simps:
  "isMissing reqBody ''title'' = (reqBody ''title'' = None)"
  "isMissing reqBody ''description'' = (reqBody ''description'' = None)"
  "isMissing reqBody ''venue'' = (reqBody ''venue'' = None)"
  "isMissing reqBody ''eventDate'' = (reqBody ''date'' = None \<and> reqBody ''eventDate'' = None)"
  "isMissing reqBody ''eventTime'' = (reqBody ''time'' = None \<and> reqBody ''eventTime'' = None)"
  "isMissing reqBody ''expectedAttendees'' = (reqBody ''expectedAttendees'' = None)"
  "isMissing reqBody ''budget'' = (reqBody ''budget'' = None)"
  "isMissing reqBody ''category'' = (reqBody ''category'' = None)"
  "isMissing reqBody ''price'' = (reqBody ''price'' = None)"
  by (simp_all add: isMissing_def fieldSources_def)

lemma getProp_None: "ob k = None \<Longrightarrow> getProp ob k = JUndefined"
  by (simp add: getProp_def)

lemma built_falsy_all:
  "list_all (\<lambda>f. isMissing reqBody f \<longrightarrow>
      \<not> truthy (getProp (ed_fields (buildEventData L u files reqBody)) f)) requiredFields"
  by (simp add: requiredFields_def isMissing_simps getProp_build getProp_None)

lemma built_falsy_when_missing:
  assumes "f \<in> set requiredFields" and "isMissing reqBody f"
  shows "\<not> truthy (getProp (ed_fields (buildEventData L u files reqBody)) f)"
  using built_falsy_all [of reqBody L u files] assms by (simp add: list_all_iff)


lemma suppliedTruthy_simps:
  "suppliedTruthy L b ''title'' = (b ''title'' = None \<or> truthy (getProp b ''title''))"
  "suppliedTruthy L b ''description'' = (b ''description'' = None \<or> truthy (getProp b ''description''))"
  "suppliedTruthy L b ''venue'' = (b ''venue'' = None \<or> truthy (getProp b ''venue''))"
  "suppliedTruthy L b ''category'' = (b ''category'' = None \<or> truthy (getProp b ''category''))"
  "suppliedTruthy L b ''eventDate'' =
     (b ''date'' = None \<and> b ''eventDate'' = None
      \<or> truthy (getProp b ''date'') \<or> truthy (getProp b ''eventDate''))"
  "suppliedTruthy L b ''eventTime'' =
     (b ''time'' = None \<and> b ''eventTime'' = None
      \<or> truthy (getProp b ''time'') \<or> truthy (getProp b ''eventTime''))"
  "suppliedTruthy L b ''expectedAttendees'' =
     (b ''expectedAttendees'' = None
      \<or> truthy (JNum (js_Number L (getProp b ''expectedAttendees''))))"
  "suppliedTruthy L b ''budget'' =
     (b ''budget'' = None \<or> truthy (JNum (js_Number L (getProp b ''budget''))))"
  "suppliedTruthy L b ''price'' =
     (b ''price'' = None \<or> truthy (JNum (js_Number L (getProp b ''price''))))"
  by (auto simp: suppliedTruthy_def isMissing_simps numericFields_def fieldSources_def)

lemma built_truthy_all:
  "list_all (\<lambda>f. \<not> isMissing reqBody f \<and> suppliedTruthy L reqBody f \<longrightarrow>
      truthy (getProp (ed_fields (buildEventData L u files reqBody)) f)) requiredFields"
  by (simp add: requiredFields_def isMissing_simps suppliedTruthy_simps getProp_build) auto

lemma built_truthy_when_supplied:
  assumes "f \<in> set requiredFields" and "\<not> isMissing reqBody f" and "suppliedTruthy L reqBody f"
  shows "truthy (getProp (ed_fields (buildEventData L u files reqBody)) f)"
  using built_truthy_all [of reqBody L u files] assms by (simp add: list_all_iff)

lemma nineFields_required: "nineFields = requiredFields"
  by (simp add: nineFields_def requiredFields_def)

text \<open>
  What the required-field check does for every body: when a field is missing, the
  handler answers 400 \<open>Missing required fields\<close> for every state of the database, so
  before any venue is looked up, and leaves the database as it was; the detail
  lists every missing field; and when each field the body supplies is truthy once
  coerced, it lists the missing fields only.
\<close>

lemma missing_fields_listed:
  assumes missing: "missingFromBody reqBody \<noteq> []"
  shows "post_events L s reqUser files newId now reqBody =
           ((400, ErrorDetails ''Missing required fields''
                    [Lit (''Please fill in the following fields: '' @
                          join '', '' (missingFields (buildEventData L reqUser files reqBody)))]), s)
         \<and> set (missingFromBody reqBody) \<subseteq> set (missingFields (buildEventData L reqUser files reqBody))
         \<and> ((\<forall>f\<in>set nineFields. suppliedTruthy L reqBody f) \<longrightarrow>
              missingFields (buildEventData L reqUser files reqBody) = missingFromBody reqBody)"
proof (intro conjI impI)
  show sub: "set (missingFromBody reqBody) \<subseteq> set (missingFields (buildEventData L reqUser files reqBody))"
    using built_falsy_when_missing [of _ reqBody L reqUser files]
    by (auto simp: missingFromBody_def missingFields_def nineFields_required)
  from missing sub have "missingFields (buildEventData L reqUser files reqBody) \<noteq> []"
    by (cases "missingFromBody reqBody") auto
  then show "post_events L s reqUser files newId now reqBody =
           ((400, ErrorDetails ''Missing required fields''
                    [Lit (''Please fill in the following fields: '' @
                          join '', '' (missingFields (buildEventData L reqUser files reqBody)))]), s)"
    by (simp add: post_events_def)
next
  assume supplied: "\<forall>f\<in>set nineFields. suppliedTruthy L reqBody f"
  have "\<And>f. f \<in> set requiredFields \<Longrightarrow>
          (\<not> truthy (getProp (ed_fields (buildEventData L reqUser files reqBody)) f)) = isMissing reqBody f"
    using built_falsy_when_missing [of _ reqBody L reqUser files]
      built_truthy_when_supplied [of _ reqBody L reqUser files] supplied
    unfolding nineFields_required by blast
  then show "missingFields (buildEventData L reqUser files reqBody) = missingFromBody reqBody"
    unfolding missingFields_def missingFromBody_def nineFields_required
    by (intro filter_cong) simp_all
qed

text \<open>
  C6. The detail of the required-field rejection should name exactly the missing
  fields. The handler does not keep to that: it tests each field for a falsy
  value, so it takes a supplied price of 0 for a missing one. A complete payload for
  a free event, which the schema's \<open>min: 0\<close> admits, is answered 400 with the detail
  naming \<open>price\<close> though no field is missing; the same payload without its title is
  answered with the detail naming \<open>title\<close> and \<open>price\<close> though only the title is
  missing; and the same payload with the price 20 is answered 201.
\<close>

theorem free_event_reported_missing:
  "missingFromBody freeForm = []
   \<and> post_events fixtureLib fixtureDb organizerO [] ''e2'' 60 freeForm =
       ((400, ErrorDetails ''Missing required fields''
                [Lit ''Please fill in the following fields: price'']), fixtureDb)
   \<and> missingFromBody untitledFreeForm = [''title'']
   \<and> post_events fixtureLib fixtureDb organizerO [] ''e2'' 60 untitledFreeForm =
       ((400, ErrorDetails ''Missing required fields''
                [Lit ''Please fill in the following fields: title, price'']), fixtureDb)
   \<and> eventValid (launchCreated\<lparr>price := Fin 0\<rparr>)
   \<and> post_events fixtureLib fixtureDb organizerO [] ''e2'' 60 (pricedForm (Fin 20)) =
       ((201, EventBody launchCreated), fixtureDb\<lparr>events := [launch, launchCreated]\<rparr>)"
proof (intro conjI)
  show "missingFromBody freeForm = []"
    by (simp add: missingFromBody_def nineFields_def isMissing_simps freeForm_def pricedForm_def)
  show "missingFromBody untitledFreeForm = [''title'']"
    by (simp add: missingFromBody_def nineFields_def isMissing_simps untitledFreeForm_def
        freeForm_def pricedForm_def)
  have "missingFields (buildEventData fixtureLib organizerO [] freeForm) = [''price'']"
    by (simp add: build_defs freeForm_def pricedForm_def)
  then show "post_events fixtureLib fixtureDb organizerO [] ''e2'' 60 freeForm =
       ((400, ErrorDetails ''Missing required fields''
                [Lit ''Please fill in the following fields: price'']), fixtureDb)"
    by (simp add: post_events_def)
  have "missingFields (buildEventData fixtureLib organizerO [] untitledFreeForm) = [''title'', ''price'']"
    by (simp add: build_defs untitledFreeForm_def freeForm_def pricedForm_def)
  then show "post_events fixtureLib fixtureDb organizerO [] ''e2'' 60 untitledFreeForm =
       ((400, ErrorDetails ''Missing required fields''
                [Lit ''Please fill in the following fields: title, price'']), fixtureDb)"
    by (simp add: post_events_def)
  show "eventValid (launchCreated\<lparr>price := Fin 0\<rparr>)"
    by (simp add: eventValid_def js_ge_def enumOk_def statusEnum_def categoryEnum_def
        venueRequestEnum_def launchCreated_def launch_def newVenueRequest_def)
  show "post_events fixtureLib fixtureDb organizerO [] ''e2'' 60 (pricedForm (Fin 20)) =
       ((201, EventBody launchCreated), fixtureDb\<lparr>events := [launch, launchCreated]\<rparr>)"
    by (simp add: post_events_def build_defs fixture_defs routeBookingChecks_def findById_def
        js_gt_def venueCost_eq create_defs launchCreated_def pricedForm_def)
qed

section \<open>The verifier\<close>











section \<open>Venue reviews\<close>

lemma totalRating_ratings:
  "map r_rating rs = map Val ns \<Longrightarrow> totalRating L rs = foldl (fadd L) (Fin 0) ns"
proof -
  assume a: "map r_rating rs = map Val ns"
  have "totalRating L rs = foldl (fadd L) (Fin 0) (map toNum (map r_rating rs))"
    by (simp add: totalRating_def foldl_map)
  also have "map toNum (map r_rating rs) = ns"
    by (simp add: a comp_def)
  finally show ?thesis .
qed

lemma venue_save_Inr:
  "venue_save s v = Inr s' \<Longrightarrow> s' = s\<lparr>venue_coll := replaceById v_id v (venue_coll s)\<rparr>"
  by (auto simp: venue_save_def split: if_splits)

text \<open>
  C7. Let a venue hold reviews with the ratings \<open>r\<^sub>1, \<dots>, r\<^sub>N\<close>, and let a review
  with the rating \<open>r\<close> be appended with success. Then the venue stored afterwards
  holds the ratings \<open>r\<^sub>1, \<dots>, r\<^sub>N, r\<close>, and its rating is their sum, taken from 0 in
  list order with the runtime's addition, divided by \<open>N + 1\<close> with the runtime's
  division.
\<close>

theorem venue_rating_is_mean:
  assumes found: "findById L v_id (venue_coll s) (JStr idParam) = Inr (Some v)"
    and held: "map r_rating (v_reviews v) = map Val rs"
    and new: "mg_castNumber L (getProp reqBody ''rating'') = Cast (Val r)"
    and success: "fst (fst (post_venue_review L s reqUser idParam now reqBody)) = 200"
  shows "\<exists>v'. post_venue_review L s reqUser idParam now reqBody =
                 ((200, VenueBody v'), s\<lparr>venue_coll := replaceById v_id v' (venue_coll s)\<rparr>)
              \<and> findById L v_id
                   (venue_coll (snd (post_venue_review L s reqUser idParam now reqBody)))
                   (JStr idParam) = Inr (Some v')
              \<and> map r_rating (v_reviews v') = map Val (rs @ [r])
              \<and> rating v' = fdiv L (foldl (fadd L) (Fin 0) (rs @ [r])) (Fin (real (length rs + 1)))"
proof -
  let ?r = "\<lparr>r_user = u_id reqUser, r_rating = Val r,
             r_comment = mg_castString L (getProp reqBody ''comment''), r_date = now\<rparr>"
  let ?rs = "v_reviews v @ [?r]"
  let ?v = "v\<lparr>v_reviews := ?rs,
              rating := fdiv L (totalRating L ?rs) (Fin (real (length ?rs)))\<rparr>"
  have nr: "newReview L reqUser now reqBody = Cast ?r"
    by (simp add: newReview_def new)
  from success found nr obtain s' where saved: "venue_save s ?v = Inr s'"
    by (auto simp: post_venue_review_def Let_def split: sum.splits)
  have s': "s' = s\<lparr>venue_coll := replaceById v_id ?v (venue_coll s)\<rparr>"
    using saved by (rule venue_save_Inr)
  have res: "post_venue_review L s reqUser idParam now reqBody = ((200, VenueBody ?v), s')"
    using found nr saved by (simp add: post_venue_review_def Let_def)
  have f: "findById L v_id (venue_coll s') (JStr idParam) = Inr (Some ?v)"
    using findById_replaceById [OF found, of ?v] by (simp add: s')
  have ratings: "map r_rating ?rs = map Val (rs @ [r])"
    using held by simp
  have len: "length ?rs = length rs + 1"
    using held by (metis length_map length_append_singleton Suc_eq_plus1)
  have mean: "rating ?v = fdiv L (foldl (fadd L) (Fin 0) (rs @ [r])) (Fin (real (length rs + 1)))"
    using totalRating_ratings [OF ratings, of L] len by simp
  have "map r_rating (v_reviews ?v) = map Val (rs @ [r])"
    using ratings by simp
  with res f mean s' show ?thesis
    by (intro exI [of _ ?v]) simp
qed

theorem venue_rating_is_mean_witness:
  "findById fixtureLib v_id (venue_coll fixtureDb) (JStr ''v1'') = Inr (Some hall)
   \<and> map r_rating (v_reviews hall) = map Val [Fin 4]
   \<and> mg_castNumber fixtureLib (getProp (map_of [(''rating'', JStr ''5''), (''comment'', JStr ''great'')]) ''rating'')
       = Cast (Val (Fin 5))
   \<and> fst (fst (post_venue_review fixtureLib fixtureDb organizerO ''v1'' 70
         (map_of [(''rating'', JStr ''5''), (''comment'', JStr ''great'')]))) = 200
   \<and> (\<exists>v'. findById fixtureLib v_id
               (venue_coll (snd (post_venue_review fixtureLib fixtureDb organizerO ''v1'' 70
                  (map_of [(''rating'', JStr ''5''), (''comment'', JStr ''great'')]))))
               (JStr ''v1'') = Inr (Some v')
           \<and> map r_rating (v_reviews v') = map Val [Fin 4, Fin 5]
           \<and> rating v' = Fin (9 / 2))"
proof -
  let ?b = "map_of [(''rating'', JStr ''5''), (''comment'', JStr ''great'')]"
  have h1: "findById fixtureLib v_id (venue_coll fixtureDb) (JStr ''v1'') = Inr (Some hall)"
    by (simp add: findById_def fixture_defs)
  have h2: "map r_rating (v_reviews hall) = map Val [Fin 4]"
    by (simp add: hall_def)
  have h3: "mg_castNumber fixtureLib (getProp ?b ''rating'') = Cast (Val (Fin 5))"
    by (simp add: getProp_def fixtureLib_def fixtureNumbers_def)
  have h4: "fst (fst (post_venue_review fixtureLib fixtureDb organizerO ''v1'' 70 ?b)) = 200"
    by (simp add: post_venue_review_def newReview_def venue_save_def totalRating_def Let_def
        findById_def getProp_def fixture_defs)
  have q: "fdiv fixtureLib (foldl (fadd fixtureLib) (Fin 0) ([Fin 4] @ [Fin 5]))
             (Fin (real (length [Fin 4 :: jsnum] + 1))) = Fin (9 / 2)"
    by (simp add: fixtureLib_def)
  from venue_rating_is_mean [OF h1 h2 h3 h4]
  have "\<exists>v'. findById fixtureLib v_id
               (venue_coll (snd (post_venue_review fixtureLib fixtureDb organizerO ''v1'' 70 ?b)))
               (JStr ''v1'') = Inr (Some v')
           \<and> map r_rating (v_reviews v') = map Val [Fin 4, Fin 5]
           \<and> rating v' = Fin (9 / 2)"
    unfolding q by auto
  then show ?thesis using h1 h2 h3 h4 by simp
qed

section \<open>Registration followed by login\<close>

















end
